theory Spec2Isabelle
  imports Main
begin

section \<open>Data model of pkg/imagestream\<close>

text \<open>
  The embedding follows \<^verbatim>\<open>src/pkg/imagestream/imagestream.go\<close>. Go structs are records
  (only the fields the package reads or writes, plus a few neighbours that show what a
  record update leaves alone), the Go type \<^verbatim>\<open>digest.Digest\<close> is a string and
  \<^verbatim>\<open>dgst.String()\<close> the identity on it. Modelled are the resolver
  (\<^verbatim>\<open>getImage\<close> to \<^verbatim>\<open>resolveUpstreamRef\<close>), \<^verbatim>\<open>TagIsInsecure\<close>, \<^verbatim>\<open>Tags\<close> and
  \<^verbatim>\<open>CreateImageStreamMapping\<close>; logging is left out.
\<close>

type_synonym digest = string

text \<open>\<^verbatim>\<open>imageapiv1.TagEvent\<close>: one entry of a tag's history.\<close>

record TagEvent =
  TagEvent_DockerImageReference :: string
  TagEvent_Image :: string
  TagEvent_Generation :: int

text \<open>\<^verbatim>\<open>imageapiv1.NamedTagEventList\<close>: the history of one tag, most recent first.\<close>

record NamedTagEventList =
  Tag :: string
  Items :: "TagEvent list"

record TagImportPolicy =
  Insecure :: bool
  Scheduled :: bool

text \<open>\<^verbatim>\<open>imageapiv1.TagReference\<close>: a tag of the stream's spec.\<close>

record TagReference =
  TagReference_Name :: string
  ImportPolicy :: TagImportPolicy

record ImageStreamSpec =
  Spec_Tags :: "TagReference list"

record ImageStreamStatus =
  DockerImageRepository :: string
  PublicDockerImageRepository :: string
  Status_Tags :: "NamedTagEventList list"

text \<open>
  \<^verbatim>\<open>imageapiv1.ImageStream\<close>. \<^verbatim>\<open>Annotations\<close> is a Go map read with
  \<^verbatim>\<open>stream.Annotations[key]\<close>, which yields the empty string for a missing key.
\<close>

record ImageStream =
  ImageStream_Namespace :: string
  ImageStream_Name :: string
  Annotations :: "string \<rightharpoonup> string"
  Spec :: ImageStreamSpec
  Status :: ImageStreamStatus

definition emptyImageStream :: ImageStream where
  "emptyImageStream =
     \<lparr>ImageStream_Namespace = [], ImageStream_Name = [], Annotations = Map.empty,
      Spec = \<lparr>Spec_Tags = []\<rparr>,
      Status = \<lparr>DockerImageRepository = [], PublicDockerImageRepository = [],
                Status_Tags = []\<rparr>\<rparr>"

definition annotation :: "ImageStream \<Rightarrow> string \<Rightarrow> string" where
  "annotation stream key = (case Annotations stream key of None \<Rightarrow> [] | Some v \<Rightarrow> v)"

text \<open>\<^verbatim>\<open>imageapiv1.Image\<close>.\<close>

record Image =
  Image_Name :: string
  Image_DockerImageReference :: string
  DockerImageMetadataVersion :: string
  DockerImageManifest :: string
  DockerImageLayers :: "string list"
  DockerImageManifestMediaType :: string
  DockerImageConfig :: string

text \<open>
  \<^verbatim>\<open>imageapiv1.ImageStreamLayers\<close>. \<^verbatim>\<open>Images\<close> is a Go map from an image name to
  its blob references; the model keeps its entries as a list, in the order in which the
  \<^verbatim>\<open>range\<close> statement of \<^verbatim>\<open>resolveUpstreamRef\<close> visits them (Go leaves that
  order open).
\<close>

record ImageBlobReferences =
  ImageMissing :: bool
  Layers :: "string list"
  Config :: "string option"
  Manifests :: "string list"

record ImageStreamLayers =
  Images :: "(string \<times> ImageBlobReferences) list"

text \<open>\<^verbatim>\<open>imageapiv1.ImageStreamMapping\<close>, as \<^verbatim>\<open>CreateImageStreamMapping\<close> fills it.\<close>

record ImageStreamMapping =
  ImageStreamMapping_Namespace :: string
  ImageStreamMapping_Name :: string
  ImageStreamMapping_Image :: Image
  ImageStreamMapping_Tag :: string

text \<open>\<^verbatim>\<open>reference.DockerImageReference\<close> of library-go.\<close>

record DockerImageReference =
  Registry :: string
  Namespace :: string
  Name :: string
  Tag_of :: string
  ID :: string

subsection \<open>Errors\<close>

text \<open>
  \<^verbatim>\<open>metav1.Status\<close> as carried by a \<^verbatim>\<open>*kerrors.StatusError\<close>; \<^verbatim>\<open>Details\<close> is a
  pointer and may be nil.
\<close>

record StatusDetails =
  Details_Name :: string
  Details_Kind :: string

record Status_of_error =
  Status_Message :: string
  Reason :: string
  Status_Code :: int
  Details :: "StatusDetails option"

text \<open>
  A non-nil Go \<^verbatim>\<open>error\<close> as the clients and libraries return it: its dynamic type is
  \<^verbatim>\<open>*kerrors.StatusError\<close> or anything else (kept with its message).
\<close>

datatype kerror = StatusError Status_of_error | OtherError string

text \<open>
  \<^verbatim>\<open>rerrors.Error\<close>, built by \<^verbatim>\<open>rerrors.NewError(code, msg, err)\<close>. The third
  argument is a Go \<^verbatim>\<open>error\<close>: nil, an error of a client or library, or another
  \<^verbatim>\<open>rerrors.Error\<close>.
\<close>

datatype rerror = NewError (Code: string) (Message: string) (Err: cause)
and cause = NilError | External kerror | Wrapped rerror

definition ErrImageStreamCode :: string where
  "ErrImageStreamCode = ''ImageStream:''"

definition ErrImageStreamUnknownErrorCode :: string where
  "ErrImageStreamUnknownErrorCode = ErrImageStreamCode @ ''Unknown''"

definition ErrImageStreamNotFoundCode :: string where
  "ErrImageStreamNotFoundCode = ErrImageStreamCode @ ''NotFound''"

definition ErrImageStreamImageNotFoundCode :: string where
  "ErrImageStreamImageNotFoundCode = ErrImageStreamCode @ ''ImageNotFound''"

definition ErrImageStreamForbiddenCode :: string where
  "ErrImageStreamForbiddenCode = ErrImageStreamCode @ ''Forbidden''"

subsection \<open>What the package imports\<close>

text \<open>
  Functions and constants of other packages that the source calls and that are not part
  of the file: they are parameters of the model. The error predicates are given on
  non-nil errors; \<open>onError\<close> below extends them to a nil error, of which each of them
  is false.
\<close>

record externals =
  kerrors_IsNotFound :: "kerror \<Rightarrow> bool"
  kerrors_IsAlreadyExists :: "kerror \<Rightarrow> bool"
  kerrors_IsConflict :: "kerror \<Rightarrow> bool"
  kerrors_IsForbidden :: "kerror \<Rightarrow> bool"
  kerrors_IsUnauthorized :: "kerror \<Rightarrow> bool"
  quotautil_IsErrorQuotaExceeded :: "kerror \<Rightarrow> bool"
  util_ResolveImageID :: "ImageStream \<Rightarrow> string \<Rightarrow> kerror + TagEvent"
  util_LatestImageTagEvent :: "ImageStream \<Rightarrow> string \<Rightarrow> string \<times> TagEvent option"
  reference_Parse :: "string \<Rightarrow> kerror + DockerImageReference"
  reference_String :: "DockerImageReference \<Rightarrow> string"
  digest_Parse :: "string \<Rightarrow> kerror + digest"
  strings_ToLower :: "string \<Rightarrow> string"
  InsecureRepositoryAnnotation :: string
  ErrImageStreamGetterNotFoundCode :: string
  ErrImageStreamGetterForbiddenCode :: string
  getterError :: "kerror \<Rightarrow> rerror"

definition onError :: "(kerror \<Rightarrow> bool) \<Rightarrow> kerror option \<Rightarrow> bool" where
  "onError p err = (case err of None \<Rightarrow> False | Some e \<Rightarrow> p e)"

text \<open>
  \<^verbatim>\<open>client.Interface\<close>: the calls on the control plane that the package makes. The
  control plane (with everything else outside the package) is a state \<open>'w\<close> that each
  call may change; objects a call returns and the source discards are left out, and a call
  does not write to the objects passed to it.
\<close>

record 'w client =
  ImageStreams_Get :: "string \<Rightarrow> string \<Rightarrow> 'w \<Rightarrow> (kerror + ImageStream) \<times> 'w"
  ImageStreams_Layers :: "string \<Rightarrow> string \<Rightarrow> 'w \<Rightarrow> (kerror + ImageStreamLayers) \<times> 'w"
  ImageStreams_Create :: "string \<Rightarrow> ImageStream \<Rightarrow> 'w \<Rightarrow> kerror option \<times> 'w"
  ImageStreamMappings_Create :: "string \<Rightarrow> ImageStreamMapping \<Rightarrow> 'w \<Rightarrow> kerror option \<times> 'w"
  Images_Get :: "digest \<Rightarrow> 'w \<Rightarrow> (kerror + Image) \<times> 'w"

text \<open>The calls made on a client, in order: the trace of one request.\<close>

datatype call =
    Call_ImageStreams_Get string string
  | Call_ImageStreams_Layers string string
  | Call_ImageStreams_Create string ImageStream
  | Call_ImageStreamMappings_Create string ImageStreamMapping
  | Call_Images_Get digest

subsection \<open>The image stream object and its state\<close>

text \<open>
  The immutable fields of \<^verbatim>\<open>imageStream\<close>. Its two caching members,
  \<^verbatim>\<open>imageClient\<close> and \<^verbatim>\<open>imageStreamGetter\<close>, are mutable and live in the state; both
  read through \<^verbatim>\<open>registryOSClient\<close>, as \<^verbatim>\<open>New\<close> sets them up.
\<close>

record 'w imageStream =
  namespace :: string
  name :: string
  registryOSClient :: "'w client"

text \<open>
  The state one request runs in: the world outside, the trace of client calls, the two
  fields of \<^verbatim>\<open>cachedImageStreamGetter\<close>, the cache of \<^verbatim>\<open>imageClient\<close> (from a
  digest to a pointer), and the store of \<^verbatim>\<open>Image\<close> objects that pointers
  (\<^verbatim>\<open>*imageapiv1.Image\<close>) refer to: a pointer is an index into \<open>images\<close>, and
  allocating appends.
\<close>

record 'w state =
  world :: 'w
  calls :: "call list"
  cachedImageStream :: "ImageStream option"
  cachedImageStreamLayers :: "ImageStreamLayers option"
  imageCache :: "digest \<rightharpoonup> nat"
  images :: "Image list"

definition new_state :: "'w \<Rightarrow> 'w state" where
  "new_state w =
     \<lparr>world = w, calls = [], cachedImageStream = None, cachedImageStreamLayers = None,
      imageCache = Map.empty, images = []\<rparr>"

definition alloc :: "Image \<Rightarrow> 'w state \<Rightarrow> nat \<times> 'w state" where
  "alloc img st = (length (images st), st\<lparr>images := images st @ [img]\<rparr>)"

definition deref :: "'w state \<Rightarrow> nat \<Rightarrow> Image" where
  "deref st p = images st ! p"

text \<open>Every pointer the image cache holds refers to an allocated object.\<close>

definition wf_state :: "'w state \<Rightarrow> bool" where
  "wf_state st = (\<forall>d p. imageCache st d = Some p \<longrightarrow> p < length (images st))"

section \<open>The caching getters\<close>

text \<open>
  Modelled from the spec: \<^verbatim>\<open>cachedImageStreamGetter\<close> (section 4.1) is not part of the
  source file. \<^verbatim>\<open>get()\<close> returns the cached stream, fetching it from the control
  plane on the first call; a failure is classified by the getter (\<open>getterError\<close>) and
  nothing is cached. \<^verbatim>\<open>layers()\<close> does the same for the layers view, and
  \<^verbatim>\<open>cacheImageStream\<close> seeds the cache.
\<close>

definition cachedImageStreamGetter_get ::
  "externals \<Rightarrow> 'w imageStream \<Rightarrow> 'w state \<Rightarrow> (rerror + ImageStream) \<times> 'w state" where
  "cachedImageStreamGetter_get X ims st =
     (case cachedImageStream st of
        Some stream \<Rightarrow> (Inr stream, st)
      | None \<Rightarrow>
          (case ImageStreams_Get (registryOSClient ims) (namespace ims) (name ims) (world st) of
             (r, w) \<Rightarrow>
               (let st' = st\<lparr>world := w,
                              calls := calls st @ [Call_ImageStreams_Get (namespace ims) (name ims)]\<rparr>
                in case r of
                     Inl err \<Rightarrow> (Inl (getterError X err), st')
                   | Inr stream \<Rightarrow> (Inr stream, st'\<lparr>cachedImageStream := Some stream\<rparr>))))"

definition cachedImageStreamGetter_layers ::
  "externals \<Rightarrow> 'w imageStream \<Rightarrow> 'w state \<Rightarrow> (rerror + ImageStreamLayers) \<times> 'w state" where
  "cachedImageStreamGetter_layers X ims st =
     (case cachedImageStreamLayers st of
        Some layers \<Rightarrow> (Inr layers, st)
      | None \<Rightarrow>
          (case ImageStreams_Layers (registryOSClient ims) (namespace ims) (name ims) (world st) of
             (r, w) \<Rightarrow>
               (let st' = st\<lparr>world := w,
                              calls := calls st @ [Call_ImageStreams_Layers (namespace ims) (name ims)]\<rparr>
                in case r of
                     Inl err \<Rightarrow> (Inl (getterError X err), st')
                   | Inr layers \<Rightarrow> (Inr layers, st'\<lparr>cachedImageStreamLayers := Some layers\<rparr>))))"

definition cacheImageStream :: "ImageStream \<Rightarrow> 'w state \<Rightarrow> 'w state" where
  "cacheImageStream stream st = st\<lparr>cachedImageStream := Some stream\<rparr>"

text \<open>
  Modelled from the spec: \<^verbatim>\<open>cachedImageGetter\<close> (section 4.2, the Image Getter) is not
  part of the source file. It returns a pointer to the image of a digest, from its cache
  of already-fetched digests or, after a fetch from the control plane, to a new object
  that it caches; the error of a failed fetch is passed on.
\<close>

definition imageClient_Get ::
  "'w imageStream \<Rightarrow> digest \<Rightarrow> 'w state \<Rightarrow> (kerror + nat) \<times> 'w state" where
  "imageClient_Get ims dgst st =
     (case imageCache st dgst of
        Some p \<Rightarrow> (Inr p, st)
      | None \<Rightarrow>
          (case Images_Get (registryOSClient ims) dgst (world st) of
             (r, w) \<Rightarrow>
               (let st' = st\<lparr>world := w, calls := calls st @ [Call_Images_Get dgst]\<rparr>
                in case r of
                     Inl err \<Rightarrow> (Inl err, st')
                   | Inr img \<Rightarrow>
                       (case alloc img st' of
                          (p, st'') \<Rightarrow> (Inr p, st''\<lparr>imageCache := (imageCache st'')(dgst \<mapsto> p)\<rparr>)))))"

section \<open>The resolver\<close>

definition Reference :: "'w imageStream \<Rightarrow> string" where
  "Reference ims = namespace ims @ ''/'' @ name ims"

definition convertImageStreamGetterError :: "externals \<Rightarrow> rerror \<Rightarrow> string \<Rightarrow> rerror" where
  "convertImageStreamGetterError X err msg =
     NewError
       (if Code err = ErrImageStreamGetterNotFoundCode X then ErrImageStreamNotFoundCode
        else if Code err = ErrImageStreamGetterForbiddenCode X then ErrImageStreamForbiddenCode
        else ErrImageStreamUnknownErrorCode)
       msg (Wrapped err)"

definition getImage ::
  "externals \<Rightarrow> 'w imageStream \<Rightarrow> digest \<Rightarrow> 'w state \<Rightarrow> (rerror + nat) \<times> 'w state" where
  "getImage X ims dgst st =
     (case imageClient_Get ims dgst st of
        (Inl err, st') \<Rightarrow>
          (if kerrors_IsNotFound X err
           then (Inl (NewError ErrImageStreamImageNotFoundCode
                        (''getImage: unable to find image digest '' @ dgst @ '' in '' @ name ims)
                        (External err)), st')
           else (Inl (NewError ErrImageStreamUnknownErrorCode
                        (''getImage: unable to get image digest '' @ dgst @ '' in '' @ name ims)
                        (External err)), st'))
      | (Inr imagep, st') \<Rightarrow> (Inr imagep, st'))"

definition ResolveImageID ::
  "externals \<Rightarrow> 'w imageStream \<Rightarrow> digest \<Rightarrow> 'w state \<Rightarrow> (rerror + TagEvent) \<times> 'w state" where
  "ResolveImageID X ims dgst st =
     (case cachedImageStreamGetter_get X ims st of
        (Inl rErr, st') \<Rightarrow>
          (Inl (convertImageStreamGetterError X rErr
                  (''ResolveImageID: failed to get image stream '' @ Reference ims)), st')
      | (Inr stream, st') \<Rightarrow>
          (case util_ResolveImageID X stream dgst of
             Inl err \<Rightarrow>
               (Inl (NewError
                       (if kerrors_IsNotFound X err then ErrImageStreamImageNotFoundCode
                        else ErrImageStreamUnknownErrorCode)
                       (''ResolveImageID: unable to resolve ImageID '' @ dgst
                          @ '' in image stream '' @ Reference ims)
                       (External err)), st')
           | Inr tagEvent \<Rightarrow> (Inr tagEvent, st')))"

definition getStoredImageOfImageStream ::
  "externals \<Rightarrow> 'w imageStream \<Rightarrow> digest \<Rightarrow> 'w state \<Rightarrow> (rerror + nat \<times> TagEvent) \<times> 'w state" where
  "getStoredImageOfImageStream X ims dgst st =
     (case ResolveImageID X ims dgst st of
        (Inl err, st1) \<Rightarrow> (Inl err, st1)
      | (Inr tagEvent, st1) \<Rightarrow>
          (case getImage X ims dgst st1 of
             (Inl err, st2) \<Rightarrow> (Inl err, st2)
           | (Inr imagep, st2) \<Rightarrow> (Inr (imagep, tagEvent), st2)))"

text \<open>
  \<^verbatim>\<open>img := *image\<close> copies the object the pointer refers to, the assignment changes the
  copy, and \<^verbatim>\<open>&img\<close> is a pointer to a new object.
\<close>

definition getImageOfImageStream ::
  "externals \<Rightarrow> 'w imageStream \<Rightarrow> digest \<Rightarrow> 'w state \<Rightarrow> (rerror + nat) \<times> 'w state" where
  "getImageOfImageStream X ims dgst st =
     (case getStoredImageOfImageStream X ims dgst st of
        (Inl err, st1) \<Rightarrow> (Inl err, st1)
      | (Inr (imagep, tagEvent), st1) \<Rightarrow>
          (let img = deref st1 imagep;
               img = img\<lparr>Image_DockerImageReference := TagEvent_DockerImageReference tagEvent\<rparr>
           in case alloc img st1 of (p, st2) \<Rightarrow> (Inr p, st2)))"

fun manifestsContain :: "string list \<Rightarrow> string \<Rightarrow> bool" where
  "manifestsContain [] dgst = False"
| "manifestsContain (m # ms) dgst = (if m = dgst then True else manifestsContain ms dgst)"

text \<open>
  The loop of \<^verbatim>\<open>resolveUpstreamRef\<close> over \<^verbatim>\<open>layers.Images\<close>: the first entry visited
  whose manifests hold the digest gives \<^verbatim>\<open>parent\<close>, which stays empty otherwise.
\<close>

fun findParent :: "(string \<times> ImageBlobReferences) list \<Rightarrow> string \<Rightarrow> string" where
  "findParent [] dgst = []"
| "findParent ((imageName, ibr) # rest) dgst =
     (if manifestsContain (Manifests ibr) dgst then imageName else findParent rest dgst)"

definition resolveUpstreamRef ::
  "externals \<Rightarrow> 'w imageStream \<Rightarrow> digest \<Rightarrow> 'w state
     \<Rightarrow> (rerror + DockerImageReference) \<times> 'w state" where
  "resolveUpstreamRef X ims dgst st =
     (case cachedImageStreamGetter_layers X ims st of
        (Inl rErr, st1) \<Rightarrow>
          (Inl (NewError ErrImageStreamUnknownErrorCode
                  (''resolveUpstreamRef: failed to get layers for image stream '' @ Reference ims)
                  (Wrapped rErr)), st1)
      | (Inr layers, st1) \<Rightarrow>
          (let parent = findParent (Images layers) dgst in
           if parent = []
           then (Inl (NewError ErrImageStreamImageNotFoundCode
                        (''resolveUpstreamRef: unable to find parent for image '' @ dgst
                           @ '' in image stream '' @ Reference ims)
                        NilError), st1)
           else
             (case ResolveImageID X ims parent st1 of
                (Inl rErr, st2) \<Rightarrow>
                  (Inl (NewError ErrImageStreamUnknownErrorCode
                          (''resolveUpstreamRef: unable to get parent event '' @ parent
                             @ '' in image stream '' @ Reference ims)
                          (Wrapped rErr)), st2)
              | (Inr parentTagEvent, st2) \<Rightarrow>
                  (case reference_Parse X (TagEvent_DockerImageReference parentTagEvent) of
                     Inl err \<Rightarrow>
                       (Inl (NewError ErrImageStreamUnknownErrorCode
                               (''resolveUpstreamRef: unable to parse parent image reference ''
                                  @ TagEvent_DockerImageReference parentTagEvent
                                  @ '' in image stream '' @ Reference ims)
                               (External err)), st2)
                   | Inr ref \<Rightarrow> (Inr (ref\<lparr>Tag_of := [], ID := dgst\<rparr>), st2)))))"

definition GetImageOfImageStream ::
  "externals \<Rightarrow> 'w imageStream \<Rightarrow> digest \<Rightarrow> 'w state \<Rightarrow> (rerror + nat) \<times> 'w state" where
  "GetImageOfImageStream X ims dgst st =
     (case getImageOfImageStream X ims dgst st of
        (Inr isImage, st1) \<Rightarrow> (Inr isImage, st1)
      | (Inl _, st1) \<Rightarrow>
          (case resolveUpstreamRef X ims dgst st1 of
             (Inl err, st2) \<Rightarrow> (Inl err, st2)
           | (Inr ref, st2) \<Rightarrow>
               (case getImage X ims dgst st2 of
                  (Inl err, st3) \<Rightarrow> (Inl err, st3)
                | (Inr imagep, st3) \<Rightarrow>
                    (let img = deref st3 imagep;
                         img = img\<lparr>Image_DockerImageReference := reference_String X ref\<rparr>
                     in case alloc img st3 of (p, st4) \<Rightarrow> (Inr p, st4)))))"

section \<open>Insecure transport and tags\<close>

text \<open>
  The loop of \<^verbatim>\<open>TagIsInsecure\<close> over \<^verbatim>\<open>stream.Spec.Tags\<close>: it returns the flag of the
  first tag of that name; \<open>None\<close> when the loop ends without returning.
\<close>

fun specTagInsecure :: "TagReference list \<Rightarrow> string \<Rightarrow> bool option" where
  "specTagInsecure [] tag = None"
| "specTagInsecure (t # ts) tag =
     (if TagReference_Name t = tag then Some (Insecure (ImportPolicy t))
      else specTagInsecure ts tag)"

definition TagIsInsecure ::
  "externals \<Rightarrow> 'w imageStream \<Rightarrow> string \<Rightarrow> digest \<Rightarrow> 'w state \<Rightarrow> (rerror + bool) \<times> 'w state" where
  "TagIsInsecure X ims tag dgst st =
     (case cachedImageStreamGetter_get X ims st of
        (Inl err, st') \<Rightarrow>
          (Inl (convertImageStreamGetterError X err
                  (''TagIsInsecure: failed to get image stream '' @ Reference ims)), st')
      | (Inr stream, st') \<Rightarrow>
          (if annotation stream (InsecureRepositoryAnnotation X) = ''true''
           then (Inr True, st')
           else
             (let tag = (if length tag = 0
                         then fst (util_LatestImageTagEvent X stream dgst) else tag)
              in if length tag \<noteq> 0
                 then (case specTagInsecure (Spec_Tags (Spec stream)) tag of
                         Some insecure \<Rightarrow> (Inr insecure, st')
                       | None \<Rightarrow> (Inr False, st'))
                 else (Inr False, st'))))"

text \<open>
  The loop of \<^verbatim>\<open>Tags\<close> over \<^verbatim>\<open>stream.Status.Tags\<close>, with the map \<^verbatim>\<open>m\<close> it fills.
  Both \<^verbatim>\<open>continue\<close> branches only log.
\<close>

fun Tags_loop ::
  "externals \<Rightarrow> NamedTagEventList list \<Rightarrow> (string \<rightharpoonup> digest) \<Rightarrow> (string \<rightharpoonup> digest)" where
  "Tags_loop X [] m = m"
| "Tags_loop X (history # rest) m =
     (case Items history of
        [] \<Rightarrow> Tags_loop X rest m
      | item # _ \<Rightarrow>
          (case digest_Parse X (TagEvent_Image item) of
             Inl err \<Rightarrow> Tags_loop X rest m
           | Inr dgst \<Rightarrow> Tags_loop X rest (m(Tag history \<mapsto> dgst))))"

definition Tags ::
  "externals \<Rightarrow> 'w imageStream \<Rightarrow> 'w state \<Rightarrow> (rerror + (string \<rightharpoonup> digest)) \<times> 'w state" where
  "Tags X ims st =
     (case cachedImageStreamGetter_get X ims st of
        (Inl err, st') \<Rightarrow>
          (Inl (convertImageStreamGetterError X err
                  (''Tags: failed to get image stream '' @ Reference ims)), st')
      | (Inr stream, st') \<Rightarrow> (Inr (Tags_loop X (Status_Tags (Status stream)) Map.empty), st'))"

section \<open>The mapping creator\<close>

text \<open>
  A Go function either returns or panics (here: on a nil pointer dereference).
\<close>

datatype 'a outcome = Panic | Return 'a

definition call_ImageStreamMappings_Create ::
  "'w client \<Rightarrow> string \<Rightarrow> ImageStreamMapping \<Rightarrow> 'w state \<Rightarrow> kerror option \<times> 'w state" where
  "call_ImageStreamMappings_Create c ns ism st =
     (case ImageStreamMappings_Create c ns ism (world st) of
        (err, w) \<Rightarrow>
          (err, st\<lparr>world := w, calls := calls st @ [Call_ImageStreamMappings_Create ns ism]\<rparr>))"

definition call_ImageStreams_Create ::
  "'w client \<Rightarrow> string \<Rightarrow> ImageStream \<Rightarrow> 'w state \<Rightarrow> kerror option \<times> 'w state" where
  "call_ImageStreams_Create c ns stream st =
     (case ImageStreams_Create c ns stream (world st) of
        (err, w) \<Rightarrow>
          (err, st\<lparr>world := w, calls := calls st @ [Call_ImageStreams_Create ns stream]\<rparr>))"

definition http_StatusNotFound :: int where
  "http_StatusNotFound = 404"

text \<open>
  \<^verbatim>\<open>CreateImageStreamMapping\<close>, lines 489 to 508: the second attempt to create the
  mapping.
\<close>

definition createMappingAgain ::
  "externals \<Rightarrow> 'w imageStream \<Rightarrow> ImageStreamMapping \<Rightarrow> 'w state
     \<Rightarrow> rerror option outcome \<times> 'w state" where
  "createMappingAgain X ims ism st =
     (case call_ImageStreamMappings_Create (registryOSClient ims) (namespace ims) ism st of
        (None, st') \<Rightarrow> (Return None, st')
      | (Some err, st') \<Rightarrow>
          (if quotautil_IsErrorQuotaExceeded X err
           then (Return (Some (NewError ErrImageStreamForbiddenCode
                    (''CreateImageStreamMapping: quota exceeded during creation of ''
                       @ Reference ims @ '' ImageStreamMapping second time'')
                    (External err))), st')
           else (Return (Some (NewError ErrImageStreamUnknownErrorCode
                    (''CreateImageStreamMapping: error creating '' @ Reference ims
                       @ '' ImageStreamMapping second time'')
                    (External err))), st')))"

text \<open>
  Lines 464 and 465: the \<^verbatim>\<open>stream\<close> object that is sent to the control plane and then
  cached, an empty \<^verbatim>\<open>ImageStream\<close> with the name set.
\<close>

definition provisionedStream :: "'w imageStream \<Rightarrow> ImageStream" where
  "provisionedStream ims = emptyImageStream\<lparr>ImageStream_Name := name ims\<rparr>"

text \<open>
  Lines 464 to 508: auto-provisioning of the stream through \<^verbatim>\<open>userClient\<close>, the
  seeding of the cache with the local \<^verbatim>\<open>stream\<close> object, and the second attempt.
\<close>

definition provisionAndRetry ::
  "externals \<Rightarrow> 'w imageStream \<Rightarrow> 'w client \<Rightarrow> ImageStreamMapping \<Rightarrow> 'w state
     \<Rightarrow> rerror option outcome \<times> 'w state" where
  "provisionAndRetry X ims userClient ism st =
     (let stream = provisionedStream ims in
      case call_ImageStreams_Create userClient (namespace ims) stream st of
        (err, st') \<Rightarrow>
          (if onError (kerrors_IsAlreadyExists X) err \<or> onError (kerrors_IsConflict X) err
           then createMappingAgain X ims ism (cacheImageStream stream st')
           else if onError (kerrors_IsForbidden X) err \<or> onError (kerrors_IsUnauthorized X) err
                   \<or> onError (quotautil_IsErrorQuotaExceeded X) err
           then (Return (Some (NewError ErrImageStreamForbiddenCode
                    (''CreateImageStreamMapping: denied creating ImageStream '' @ Reference ims)
                    (case err of None \<Rightarrow> NilError | Some e \<Rightarrow> External e))), st')
           else if err \<noteq> None
           then (Return (Some (NewError ErrImageStreamUnknownErrorCode
                    (''CreateImageStreamMapping: error auto provisioning ImageStream ''
                       @ Reference ims)
                    (case err of None \<Rightarrow> NilError | Some e \<Rightarrow> External e))), st')
           else createMappingAgain X ims ism (cacheImageStream stream st')))"

text \<open>
  Lines 433 to 462: what the first attempt's error leads to when it is not a quota
  error. \<^verbatim>\<open>status.Details.Kind\<close> at line 445 is read once \<^verbatim>\<open>IsNotFound\<close> holds,
  before the nil check of line 453.
\<close>

definition afterFirstError ::
  "externals \<Rightarrow> 'w imageStream \<Rightarrow> 'w client \<Rightarrow> ImageStreamMapping \<Rightarrow> kerror \<Rightarrow> 'w state
     \<Rightarrow> rerror option outcome \<times> 'w state" where
  "afterFirstError X ims userClient ism err st =
     (case err of
        OtherError _ \<Rightarrow>
          (Return (Some (NewError ErrImageStreamUnknownErrorCode
             (''CreateImageStreamMapping: error creating '' @ Reference ims
                @ '' ImageStreamMapping'')
             (External err))), st)
      | StatusError status \<Rightarrow>
          (if kerrors_IsNotFound X err \<and> Details status = None then (Panic, st)
           else if kerrors_IsNotFound X err
                   \<and> (case Details status of None \<Rightarrow> False
                       | Some d \<Rightarrow> strings_ToLower X (Details_Kind d) = ''namespaces'')
           then (Return (Some (NewError ErrImageStreamForbiddenCode
                    (''CreateImageStreamMapping: error creating '' @ Reference ims
                       @ '' ImageStreamMapping'')
                    (External err))), st)
           else
             (let isValidKind =
                    (case Details status of None \<Rightarrow> False
                     | Some d \<Rightarrow> Details_Kind d = ''imagestreammappings'')
              in if \<not> isValidKind \<or> Status_Code status \<noteq> http_StatusNotFound
                    \<or> (case Details status of None \<Rightarrow> True
                        | Some d \<Rightarrow> Details_Name d \<noteq> name ims)
                 then (Return (Some (NewError ErrImageStreamUnknownErrorCode
                          (''CreateImageStreamMapping: error creation of '' @ Reference ims
                             @ '' ImageStreamMapping'')
                          (External err))), st)
                 else provisionAndRetry X ims userClient ism st)))"

text \<open>Lines 409 to 416: the mapping \<^verbatim>\<open>ism\<close> that both attempts send.\<close>

definition mappingOf :: "'w imageStream \<Rightarrow> string \<Rightarrow> Image \<Rightarrow> ImageStreamMapping" where
  "mappingOf ims tag img =
     \<lparr>ImageStreamMapping_Namespace = namespace ims,
      ImageStreamMapping_Name = name ims,
      ImageStreamMapping_Image = img,
      ImageStreamMapping_Tag = tag\<rparr>"

text \<open>
  \<^verbatim>\<open>CreateImageStreamMapping\<close>. The argument \<^verbatim>\<open>image\<close> is a pointer: \<open>None\<close> when it
  is nil, otherwise the object it points to, which \<^verbatim>\<open>*image\<close> copies into the mapping.
\<close>

definition CreateImageStreamMapping ::
  "externals \<Rightarrow> 'w imageStream \<Rightarrow> 'w client \<Rightarrow> string \<Rightarrow> Image option \<Rightarrow> 'w state
     \<Rightarrow> rerror option outcome \<times> 'w state" where
  "CreateImageStreamMapping X ims userClient tag imagearg st =
     (case imagearg of
        None \<Rightarrow> (Panic, st)
      | Some img \<Rightarrow>
          (let ism = mappingOf ims tag img
           in case call_ImageStreamMappings_Create (registryOSClient ims) (namespace ims) ism st of
                (None, st') \<Rightarrow> (Return None, st')
              | (Some err, st') \<Rightarrow>
                  (if quotautil_IsErrorQuotaExceeded X err
                   then (Return (Some (NewError ErrImageStreamForbiddenCode
                            (''CreateImageStreamMapping: quota exceeded during creation of ''
                               @ Reference ims @ '' ImageStreamMapping'')
                            (External err))), st')
                   else afterFirstError X ims userClient ism err st')))"

text \<open>
  The tests the source makes on the error of the first attempt, as predicates. Lines 453
  to 456: the error says that the target stream was not found, the one case that goes
  on to auto-provisioning. Line 445: the error says that the namespace was not found;
  and the case in which line 445 reads \<^verbatim>\<open>Details\<close> although it is nil.
\<close>

definition streamNotFound :: "'w imageStream \<Rightarrow> kerror \<Rightarrow> bool" where
  "streamNotFound ims err =
     (case err of
        OtherError _ \<Rightarrow> False
      | StatusError status \<Rightarrow>
          (case Details status of
             None \<Rightarrow> False
           | Some d \<Rightarrow> Details_Kind d = ''imagestreammappings''
                       \<and> Status_Code status = http_StatusNotFound
                       \<and> Details_Name d = name ims))"

definition namespaceNotFound :: "externals \<Rightarrow> kerror \<Rightarrow> bool" where
  "namespaceNotFound X err =
     (case err of
        OtherError _ \<Rightarrow> False
      | StatusError status \<Rightarrow>
          kerrors_IsNotFound X err
          \<and> (case Details status of
                None \<Rightarrow> False
              | Some d \<Rightarrow> strings_ToLower X (Details_Kind d) = ''namespaces''))"

definition notFoundWithoutDetails :: "externals \<Rightarrow> kerror \<Rightarrow> bool" where
  "notFoundWithoutDetails X err =
     (case err of
        OtherError _ \<Rightarrow> False
      | StatusError status \<Rightarrow> kerrors_IsNotFound X err \<and> Details status = None)"

text \<open>Counting the calls of a trace.\<close>

fun isMappingCreate :: "call \<Rightarrow> bool" where
  "isMappingCreate (Call_ImageStreamMappings_Create ns ism) = True"
| "isMappingCreate c = False"

fun isStreamCreate :: "call \<Rightarrow> bool" where
  "isStreamCreate (Call_ImageStreams_Create ns stream) = True"
| "isStreamCreate c = False"

definition newCalls :: "'w state \<Rightarrow> 'w state \<Rightarrow> call list" where
  "newCalls st st' = drop (length (calls st)) (calls st')"

section \<open>An example instance\<close>

text \<open>
  A concrete instance of the parameters, used to run the model: stand-ins for the
  imported functions that do on the example data what the originals do, a client whose
  world is the number of calls made so far, and a stream \<open>ns/app\<close> whose tag
  \<open>latest\<close> points at the manifest list \<open>sha256:aaaa\<close> with the member
  \<open>sha256:bbbb\<close> and whose tag \<open>stable\<close> points at the manifest list
  \<open>sha256:dddd\<close> with the member \<open>sha256:ffff\<close>. The parser of references knows
  the references of the example. A digest of the example is \<open>sha256:\<close> followed by 64
  times one hexadecimal digit; the text writes \<open>sha256:aaaa\<close> for
  \<open>ex_digest CHR ''a''\<close>.
\<close>

definition ex_digest :: "char \<Rightarrow> digest" where
  "ex_digest c = ''sha256:'' @ replicate 64 c"

definition ex_notFound :: "string \<Rightarrow> string \<Rightarrow> kerror" where
  "ex_notFound kind nm =
     StatusError \<lparr>Status_Message = kind @ '' '' @ nm @ '' not found'', Reason = ''NotFound'',
                  Status_Code = 404,
                  Details = Some \<lparr>Details_Name = nm, Details_Kind = kind\<rparr>\<rparr>"

definition ex_quota :: kerror where
  "ex_quota =
     StatusError
       \<lparr>Status_Message =
          ''imagestreammappings.image.openshift.io app is forbidden: exceeded quota: object-counts'',
        Reason = ''Forbidden'', Status_Code = 403, Details = None\<rparr>"

text \<open>
  The predicates of \<^verbatim>\<open>kerrors\<close>: the reason of a status error decides, and for a
  reason that is not among the known ones the HTTP code does. An error of another type
  has no reason.
\<close>

definition ex_knownReasons :: "string list" where
  "ex_knownReasons =
     [''Unauthorized'', ''Forbidden'', ''NotFound'', ''AlreadyExists'', ''Conflict'', ''Gone'',
      ''Invalid'', ''ServerTimeout'', ''Timeout'', ''TooManyRequests'', ''BadRequest'',
      ''MethodNotAllowed'', ''NotAcceptable'', ''RequestEntityTooLarge'',
      ''UnsupportedMediaType'', ''InternalError'', ''Expired'', ''ServiceUnavailable'']"

definition ex_reason :: "string \<Rightarrow> kerror \<Rightarrow> bool" where
  "ex_reason r err = (case err of StatusError s \<Rightarrow> Reason s = r | OtherError _ \<Rightarrow> False)"

definition ex_reasonOrCode :: "string \<Rightarrow> int \<Rightarrow> kerror \<Rightarrow> bool" where
  "ex_reasonOrCode r code err =
     (case err of
        StatusError s \<Rightarrow>
          Reason s = r \<or> (Reason s \<notin> set ex_knownReasons \<and> Status_Code s = code)
      | OtherError _ \<Rightarrow> False)"

definition ex_ToLower :: "string \<Rightarrow> string" where
  "ex_ToLower s =
     map (\<lambda>c. case map_of (zip ''ABCDEFGHIJKLMNOPQRSTUVWXYZ'' ''abcdefghijklmnopqrstuvwxyz'') c of
                 None \<Rightarrow> c | Some l \<Rightarrow> l) s"

fun ex_Contains :: "string \<Rightarrow> string \<Rightarrow> bool" where
  "ex_Contains [] substr = (substr = [])"
| "ex_Contains (c # cs) substr =
     (take (length substr) (c # cs) = substr \<or> ex_Contains cs substr)"

text \<open>
  \<^verbatim>\<open>quotautil.IsErrorQuotaExceeded\<close>: a forbidden or invalid error whose message, in
  lower case, speaks of an exceeded limit, or a forbidden one whose message speaks of an
  exceeded quota.
\<close>

definition ex_IsErrorQuotaExceeded :: "kerror \<Rightarrow> bool" where
  "ex_IsErrorQuotaExceeded err =
     (case err of
        StatusError s \<Rightarrow>
          (ex_reasonOrCode ''Forbidden'' 403 err \<or> ex_reasonOrCode ''Invalid'' 422 err)
          \<and> (ex_Contains (ex_ToLower (Status_Message s)) ''exceeds the maximum limit''
               \<or> (ex_reasonOrCode ''Forbidden'' 403 err
                    \<and> ex_Contains (ex_ToLower (Status_Message s)) ''exceeded quota''))
      | OtherError _ \<Rightarrow> False)"

definition ex_events :: "ImageStream \<Rightarrow> string \<Rightarrow> TagEvent list" where
  "ex_events stream imageID =
     filter (\<lambda>e. TagEvent_Image e = imageID) (concat (map Items (Status_Tags (Status stream))))"

definition ex_ResolveImageID :: "ImageStream \<Rightarrow> string \<Rightarrow> kerror + TagEvent" where
  "ex_ResolveImageID stream imageID =
     (case ex_events stream imageID of
        [] \<Rightarrow> Inl (ex_notFound ''imagestreamimage'' imageID)
      | e # es \<Rightarrow>
          Inr \<lparr>TagEvent_DockerImageReference = TagEvent_DockerImageReference (last (e # es)),
                TagEvent_Image = TagEvent_Image (last (e # es)), TagEvent_Generation = 0\<rparr>)"

fun ex_LatestImageTagEvent :: "NamedTagEventList list \<Rightarrow> string \<Rightarrow> string \<times> TagEvent option" where
  "ex_LatestImageTagEvent [] imageID = ([], None)"
| "ex_LatestImageTagEvent (h # hs) imageID =
     (case filter (\<lambda>e. TagEvent_Image e = imageID) (Items h) of
        [] \<Rightarrow> ex_LatestImageTagEvent hs imageID
      | e # _ \<Rightarrow> (Tag h, Some e))"

definition ex_Parse :: "string \<Rightarrow> kerror + DockerImageReference" where
  "ex_Parse s =
     (if s = ''quay.example/team/app:v1''
      then Inr \<lparr>Registry = ''quay.example'', Namespace = ''team'', Name = ''app'',
                Tag_of = ''v1'', ID = []\<rparr>
      else if s = (''quay.example/team/app@'' @ ex_digest CHR ''b'')
      then Inr \<lparr>Registry = ''quay.example'', Namespace = ''team'', Name = ''app'',
                Tag_of = [], ID = (ex_digest CHR ''b'')\<rparr>
      else if s = ''docker.example/lib/app:v2''
      then Inr \<lparr>Registry = ''docker.example'', Namespace = ''lib'', Name = ''app'',
                Tag_of = ''v2'', ID = []\<rparr>
      else if s = (''docker.example/lib/app@'' @ ex_digest CHR ''b'')
      then Inr \<lparr>Registry = ''docker.example'', Namespace = ''lib'', Name = ''app'',
                Tag_of = [], ID = (ex_digest CHR ''b'')\<rparr>
      else Inl (OtherError ''invalid reference format''))"

definition ex_digest_Parse :: "string \<Rightarrow> kerror + digest" where
  "ex_digest_Parse s =
     (if take 7 s = ''sha256:'' \<and> length s = 71
         \<and> list_all (\<lambda>c. c \<in> set ''0123456789abcdef'') (drop 7 s)
      then Inr s
      else Inl (OtherError ''invalid checksum digest format''))"

text \<open>
  \<^verbatim>\<open>DockerImageReference.String\<close>: the name with \<open>@\<close> and the ID when the ID is a
  digest, with \<open>:\<close> and the ID when it is not, with the tag otherwise, after the
  registry and the namespace.
\<close>

definition ex_String :: "DockerImageReference \<Rightarrow> string" where
  "ex_String r =
     (let nm = (if Name r = [] then []
                else if ID r \<noteq> []
                then Name r @ (case ex_digest_Parse (ID r) of Inr _ \<Rightarrow> ''@'' | Inl _ \<Rightarrow> '':'')
                       @ ID r
                else if Tag_of r \<noteq> [] then Name r @ '':'' @ Tag_of r
                else Name r)
      in if nm = [] then []
         else (if Registry r = [] then [] else Registry r @ ''/'')
                @ (if Namespace r = [] then [] else Namespace r @ ''/'') @ nm)"

definition ex_X :: externals where
  "ex_X =
     \<lparr>kerrors_IsNotFound = ex_reasonOrCode ''NotFound'' 404,
      kerrors_IsAlreadyExists = ex_reason ''AlreadyExists'',
      kerrors_IsConflict = ex_reasonOrCode ''Conflict'' 409,
      kerrors_IsForbidden = ex_reasonOrCode ''Forbidden'' 403,
      kerrors_IsUnauthorized = ex_reasonOrCode ''Unauthorized'' 401,
      quotautil_IsErrorQuotaExceeded = ex_IsErrorQuotaExceeded,
      util_ResolveImageID = ex_ResolveImageID,
      util_LatestImageTagEvent = (\<lambda>stream. ex_LatestImageTagEvent (Status_Tags (Status stream))),
      reference_Parse = ex_Parse,
      reference_String = ex_String,
      digest_Parse = ex_digest_Parse,
      strings_ToLower = ex_ToLower,
      InsecureRepositoryAnnotation = ''openshift.io/image.insecureRepository'',
      ErrImageStreamGetterNotFoundCode = ''ImageStreamGetter:NotFound'',
      ErrImageStreamGetterForbiddenCode = ''ImageStreamGetter:Forbidden'',
      getterError = (\<lambda>err. NewError
        (if ex_reasonOrCode ''NotFound'' 404 err then ''ImageStreamGetter:NotFound''
         else if ex_reasonOrCode ''Forbidden'' 403 err \<or> ex_reasonOrCode ''Unauthorized'' 401 err
                 \<or> ex_IsErrorQuotaExceeded err
         then ''ImageStreamGetter:Forbidden''
         else ''ImageStreamGetter:Unknown'') ''failed to get image stream'' (External err))\<rparr>"

definition ex_stream :: ImageStream where
  "ex_stream =
     \<lparr>ImageStream_Namespace = ''ns'', ImageStream_Name = ''app'', Annotations = Map.empty,
      Spec = \<lparr>Spec_Tags =
        [\<lparr>TagReference_Name = ''latest'',
          ImportPolicy = \<lparr>Insecure = True, Scheduled = False\<rparr>\<rparr>]\<rparr>,
      Status = \<lparr>DockerImageRepository = ''registry.local/ns/app'',
                PublicDockerImageRepository = [],
                Status_Tags =
        [\<lparr>Tag = ''latest'',
          Items = [\<lparr>TagEvent_DockerImageReference = ''quay.example/team/app:v1'',
                    TagEvent_Image = (ex_digest CHR ''a''), TagEvent_Generation = 2\<rparr>]\<rparr>,
         \<lparr>Tag = ''stable'',
          Items = [\<lparr>TagEvent_DockerImageReference = ''docker.example/lib/app:v2'',
                    TagEvent_Image = (ex_digest CHR ''d''), TagEvent_Generation = 3\<rparr>]\<rparr>,
         \<lparr>Tag = ''pending'', Items = []\<rparr>,
         \<lparr>Tag = ''broken'',
          Items = [\<lparr>TagEvent_DockerImageReference = ''quay.example/team/app:old'',
                    TagEvent_Image = ''latest'', TagEvent_Generation = 1\<rparr>]\<rparr>]\<rparr>\<rparr>"

definition ex_blobs :: "string list \<Rightarrow> ImageBlobReferences" where
  "ex_blobs ms = \<lparr>ImageMissing = False, Layers = [], Config = None, Manifests = ms\<rparr>"

definition ex_layers :: ImageStreamLayers where
  "ex_layers =
     \<lparr>Images = [(ex_digest CHR ''d'', ex_blobs [ex_digest CHR ''f'']),
                (ex_digest CHR ''a'', ex_blobs [ex_digest CHR ''b''])]\<rparr>"

text \<open>
  A second layers view: the member \<open>sha256:bbbb\<close> also belongs to the manifest list
  \<open>sha256:dddd\<close> of the tag \<open>stable\<close>, which was tagged from another repository
  and is visited first. In a third one its only manifest list has no tag event.
\<close>

definition ex_layers2 :: ImageStreamLayers where
  "ex_layers2 =
     \<lparr>Images = [((ex_digest CHR ''d''), ex_blobs [(ex_digest CHR ''b'')]),
                ((ex_digest CHR ''a''), ex_blobs [(ex_digest CHR ''b'')])]\<rparr>"

definition ex_layers3 :: ImageStreamLayers where
  "ex_layers3 = \<lparr>Images = [((ex_digest CHR ''e''), ex_blobs [(ex_digest CHR ''b'')])]\<rparr>"

definition ex_image :: "digest \<Rightarrow> Image" where
  "ex_image d =
     \<lparr>Image_Name = d, Image_DockerImageReference = ''registry.local/ns/app@'' @ d,
      DockerImageMetadataVersion = ''1.0'', DockerImageManifest = [],
      DockerImageLayers = [], DockerImageManifestMediaType = [], DockerImageConfig = []\<rparr>"

text \<open>
  The example client: it knows the images \<open>sha256:aaaa\<close> and \<open>sha256:bbbb\<close>, serves
  the given layers view, and answers the first call of the request with \<open>first\<close> when
  that call creates a mapping.
\<close>

definition ex_client :: "ImageStreamLayers \<Rightarrow> kerror option \<Rightarrow> kerror option \<Rightarrow> nat client" where
  "ex_client layers first again =
     \<lparr>ImageStreams_Get = (\<lambda>ns nm w. (Inr ex_stream, Suc w)),
      ImageStreams_Layers = (\<lambda>ns nm w. (Inr layers, Suc w)),
      ImageStreams_Create = (\<lambda>ns stream w. (None, Suc w)),
      ImageStreamMappings_Create = (\<lambda>ns ism w. (if w = 0 then first else again, Suc w)),
      Images_Get = (\<lambda>d w.
        (if d = (ex_digest CHR ''a'') \<or> d = (ex_digest CHR ''b'') then Inr (ex_image d)
         else Inl (ex_notFound ''images'' d), Suc w))\<rparr>"

definition ex_ims :: "ImageStreamLayers \<Rightarrow> kerror option \<Rightarrow> kerror option \<Rightarrow> nat imageStream" where
  "ex_ims layers first again =
     \<lparr>namespace = ''ns'', name = ''app'', registryOSClient = ex_client layers first again\<rparr>"


text \<open>The state after the example request has resolved \<open>sha256:aaaa\<close> once.\<close>

definition ex_state1 :: "nat state" where
  "ex_state1 =
     snd (GetImageOfImageStream ex_X (ex_ims ex_layers None None) (ex_digest CHR ''a'') (new_state 0))"

text \<open>The example stream with the insecure-repository annotation set.\<close>

definition ex_insecure_stream :: ImageStream where
  "ex_insecure_stream =
     ex_stream\<lparr>Annotations := [''openshift.io/image.insecureRepository'' \<mapsto> ''true'']\<rparr>"

lemma list_all_replicate_iff: "list_all P (replicate n x) \<longleftrightarrow> n = 0 \<or> P x"
  by (induction n) auto

lemmas ex_defs = ex_X_def ex_ims_def ex_client_def ex_stream_def ex_layers_def ex_layers2_def
  ex_layers3_def ex_digest_def ex_reasonOrCode_def ex_knownReasons_def list_all_replicate_iff
  ex_image_def ex_blobs_def ex_ToLower_def ex_digest_Parse_def ex_String_def ex_Parse_def
  ex_ResolveImageID_def ex_events_def ex_IsErrorQuotaExceeded_def ex_reason_def ex_quota_def
  ex_notFound_def

lemmas resolver_defs = GetImageOfImageStream_def getImageOfImageStream_def
  getStoredImageOfImageStream_def ResolveImageID_def resolveUpstreamRef_def getImage_def
  imageClient_Get_def cachedImageStreamGetter_get_def cachedImageStreamGetter_layers_def
  convertImageStreamGetterError_def Reference_def alloc_def deref_def new_state_def Let_def
  ErrImageStreamCode_def ErrImageStreamUnknownErrorCode_def ErrImageStreamNotFoundCode_def
  ErrImageStreamImageNotFoundCode_def ErrImageStreamForbiddenCode_def

lemmas code_defs = ErrImageStreamCode_def ErrImageStreamUnknownErrorCode_def
  ErrImageStreamNotFoundCode_def ErrImageStreamImageNotFoundCode_def ErrImageStreamForbiddenCode_def

lemmas creator_defs = call_ImageStreamMappings_Create_def call_ImageStreams_Create_def
  mappingOf_def provisionedStream_def new_state_def

section \<open>What each operation leaves alone\<close>

lemma alloc_wf: "wf_state st \<Longrightarrow> alloc img st = (p, st') \<Longrightarrow> wf_state st'"
  by (fastforce simp: wf_state_def alloc_def intro: less_SucI)

lemma deref_alloc:
  "alloc img st = (q, st') \<Longrightarrow>
     q = length (images st) \<and> deref st' q = img \<and> (\<forall>a<length (images st). deref st' a = deref st a)"
  by (auto simp: alloc_def deref_def nth_append)

lemma get_frame:
  "cachedImageStreamGetter_get X ims st = (r, st') \<Longrightarrow>
     images st' = images st \<and> imageCache st' = imageCache st"
  by (auto simp: cachedImageStreamGetter_get_def Let_def split: option.splits prod.splits sum.splits)

lemma layers_frame:
  "cachedImageStreamGetter_layers X ims st = (r, st') \<Longrightarrow>
     images st' = images st \<and> imageCache st' = imageCache st"
  by (auto simp: cachedImageStreamGetter_layers_def Let_def split: option.splits prod.splits sum.splits)

lemma ResolveImageID_frame:
  "ResolveImageID X ims d st = (r, st') \<Longrightarrow>
     images st' = images st \<and> imageCache st' = imageCache st"
  by (auto simp: ResolveImageID_def split: prod.splits sum.splits dest: get_frame)

text \<open>
  The image getter keeps the state well formed, changes no object that exists, and a
  pointer it returns refers to an allocated object that its cache holds for the digest.
\<close>

lemma imageClient_Get_frame:
  assumes "wf_state st" and "imageClient_Get ims d st = (r, st')"
  shows "wf_state st' \<and> take (length (images st)) (images st') = images st
         \<and> (\<forall>p. r = Inr p \<longrightarrow> p < length (images st') \<and> imageCache st' d = Some p)"
proof (cases "imageCache st d")
  case (Some p)
  with assms show ?thesis
    by (auto simp: imageClient_Get_def wf_state_def)
next
  case None
  obtain r0 w where call: "Images_Get (registryOSClient ims) d (world st) = (r0, w)"
    by (cases "Images_Get (registryOSClient ims) d (world st)")
  show ?thesis
  proof (cases r0)
    case (Inl err)
    with None call assms show ?thesis
      by (auto simp: imageClient_Get_def wf_state_def Let_def)
  next
    case (Inr img)
    with None call assms(2)
    have st': "st' = st\<lparr>world := w, calls := calls st @ [Call_Images_Get d],
                         images := images st @ [img],
                         imageCache := (imageCache st)(d \<mapsto> length (images st))\<rparr>"
      and r: "r = Inr (length (images st))"
      by (auto simp: imageClient_Get_def alloc_def Let_def)
    from assms(1) have "wf_state st'"
      unfolding wf_state_def st' by (auto intro: less_SucI)
    with st' r show ?thesis by simp
  qed
qed

lemma getImage_frame:
  assumes "wf_state st" and "getImage X ims d st = (r, st')"
  shows "wf_state st' \<and> take (length (images st)) (images st') = images st
         \<and> (\<forall>p. r = Inr p \<longrightarrow> p < length (images st') \<and> imageCache st' d = Some p)"
  using assms imageClient_Get_frame[of st ims d]
  by (auto simp: getImage_def split: prod.splits sum.splits if_splits)

lemma resolveUpstreamRef_frame:
  "resolveUpstreamRef X ims d st = (r, st') \<Longrightarrow>
     images st' = images st \<and> imageCache st' = imageCache st"
  by (auto simp: resolveUpstreamRef_def Let_def split: prod.splits sum.splits if_splits
           dest!: layers_frame ResolveImageID_frame)

lemma wf_new_state: "wf_state (new_state w)"
  by (simp add: wf_state_def new_state_def)

section \<open>Resolution of a digest\<close>

lemma manifestsContain_set: "manifestsContain ms d = (d \<in> set ms)"
  by (induction ms) auto

lemma findParent_none:
  "\<forall>(p, ibr) \<in> set xs. d \<notin> set (Manifests ibr) \<Longrightarrow> findParent xs d = []"
  by (induction xs) (auto simp: manifestsContain_set)

text \<open>
  The walk returns the first entry visited whose manifests hold the digest; when one list
  alone holds it, that list, wherever it stands.
\<close>

lemma findParent_first:
  assumes "xs = earlier @ (parent, ibr) # later"
      and "\<forall>(p', ibr') \<in> set earlier. d \<notin> set (Manifests ibr')"
      and "d \<in> set (Manifests ibr)"
  shows "findParent xs d = parent"
  using assms by (induction earlier arbitrary: xs) (auto simp: manifestsContain_set)

lemma findParent_only:
  assumes "(parent, ibr) \<in> set xs" and "d \<in> set (Manifests ibr)"
      and "\<forall>(p', ibr') \<in> set xs. d \<in> set (Manifests ibr') \<longrightarrow> p' = parent"
  shows "findParent xs d = parent"
  using assms by (induction xs) (auto simp: manifestsContain_set)

lemma findParent_member:
  "findParent xs d \<noteq> [] \<Longrightarrow>
     \<exists>ibr. (findParent xs d, ibr) \<in> set xs \<and> d \<in> set (Manifests ibr)"
  by (induction xs) (auto simp: manifestsContain_set split: if_splits)

lemma getImageOfImageStream_direct:
  assumes "ResolveImageID X ims d st = (Inr e, st1)"
      and "getImage X ims d st1 = (Inr p, st2)"
  shows "getImageOfImageStream X ims d st =
           (Inr (length (images st2)),
            st2\<lparr>images := images st2 @
               [(deref st2 p)\<lparr>Image_DockerImageReference := TagEvent_DockerImageReference e\<rparr>]\<rparr>)"
  using assms
  by (simp add: getImageOfImageStream_def getStoredImageOfImageStream_def alloc_def)

lemma getImageOfImageStream_Inl:
  "getImageOfImageStream X ims d st = (Inl err, st1) \<longleftrightarrow>
     ResolveImageID X ims d st = (Inl err, st1)
     \<or> (\<exists>e st0. ResolveImageID X ims d st = (Inr e, st0) \<and> getImage X ims d st0 = (Inl err, st1))"
  by (auto simp: getImageOfImageStream_def getStoredImageOfImageStream_def alloc_def Let_def
           split: prod.splits sum.splits)

text \<open>
  Claim C1. Whenever \<^verbatim>\<open>ResolveImageID\<close> finds the tag event \<open>e\<close> of the digest in the
  cached stream and the image fetch that follows returns the pointer \<open>p\<close> to the stored
  image, \<^verbatim>\<open>GetImageOfImageStream\<close> succeeds, and the image it returns is the stored one
  with \<^verbatim>\<open>DockerImageReference\<close> replaced by the reference recorded in \<open>e\<close>.
\<close>

theorem GetImageOfImageStream_tag_history:
  assumes "wf_state st"
      and "ResolveImageID X ims d st = (Inr e, st1)"
      and "getImage X ims d st1 = (Inr p, st2)"
  shows "\<exists>q st'. GetImageOfImageStream X ims d st = (Inr q, st')
           \<and> p < length (images st2)
           \<and> deref st' q =
               (deref st2 p)\<lparr>Image_DockerImageReference := TagEvent_DockerImageReference e\<rparr>"
proof -
  from assms(1,2) have "wf_state st1"
    by (auto simp: wf_state_def dest!: ResolveImageID_frame)
  with assms(3) have "p < length (images st2)"
    using getImage_frame by blast
  moreover from getImageOfImageStream_direct[OF assms(2,3)]
  have "GetImageOfImageStream X ims d st =
          (Inr (length (images st2)),
           st2\<lparr>images := images st2 @
              [(deref st2 p)\<lparr>Image_DockerImageReference := TagEvent_DockerImageReference e\<rparr>]\<rparr>)"
    by (simp add: GetImageOfImageStream_def)
  ultimately show ?thesis
    by (simp add: deref_def)
qed

theorem GetImageOfImageStream_tag_history_witness:
  "\<exists>q st'. GetImageOfImageStream ex_X (ex_ims ex_layers None None) (ex_digest CHR ''a'') (new_state 0)
              = (Inr q, st')
     \<and> deref st' q = (ex_image (ex_digest CHR ''a''))
          \<lparr>Image_DockerImageReference := ''quay.example/team/app:v1''\<rparr>"
proof -
  define ims where "ims = ex_ims ex_layers None None"
  define R where "R = ResolveImageID ex_X ims (ex_digest CHR ''a'') (new_state 0)"
  define G where "G = getImage ex_X ims (ex_digest CHR ''a'') (snd R)"
  have r: "ResolveImageID ex_X ims (ex_digest CHR ''a'') (new_state 0) = (Inr (projr (fst R)), snd R)"
    by (simp add: R_def ims_def ResolveImageID_def cachedImageStreamGetter_get_def new_state_def
          ex_defs)
  have g: "getImage ex_X ims (ex_digest CHR ''a'') (snd R) = (Inr (projr (fst G)), snd G)"
    by (simp add: G_def R_def ims_def ResolveImageID_def cachedImageStreamGetter_get_def
          getImage_def imageClient_Get_def alloc_def new_state_def ex_defs)
  have e: "TagEvent_DockerImageReference (projr (fst R)) = ''quay.example/team/app:v1''"
    by (simp add: R_def ims_def ResolveImageID_def cachedImageStreamGetter_get_def new_state_def
          ex_defs)
  have p: "deref (snd G) (projr (fst G)) = ex_image (ex_digest CHR ''a'')"
    by (simp add: G_def R_def ims_def ResolveImageID_def cachedImageStreamGetter_get_def
          getImage_def imageClient_Get_def alloc_def deref_def new_state_def ex_defs)
  from GetImageOfImageStream_tag_history[OF wf_new_state r g] show ?thesis
    unfolding e p ims_def by blast
qed

lemma getImageOfImageStream_fails_wf:
  assumes "wf_state st" and "getImageOfImageStream X ims d st = (Inl e, st')"
  shows "wf_state st'"
proof -
  from assms(2) consider
      "ResolveImageID X ims d st = (Inl e, st')"
    | e0 st0 where "ResolveImageID X ims d st = (Inr e0, st0)" "getImage X ims d st0 = (Inl e, st')"
    unfolding getImageOfImageStream_Inl by blast
  then show ?thesis
  proof cases
    case 1
    from ResolveImageID_frame[OF 1] assms(1) show ?thesis
      by (auto simp: wf_state_def)
  next
    case 2
    from ResolveImageID_frame[OF 2(1)] assms(1) have "wf_state st0"
      by (auto simp: wf_state_def)
    from getImage_frame[OF this 2(2)] show ?thesis
      by simp
  qed
qed

lemma resolveUpstreamRef_found:
  assumes "cachedImageStreamGetter_layers X ims st = (Inr layers, st1)"
      and "findParent (Images layers) d = parent" and "parent \<noteq> []"
      and "ResolveImageID X ims parent st1 = (Inr pe, st2)"
      and "reference_Parse X (TagEvent_DockerImageReference pe) = Inr ref"
  shows "resolveUpstreamRef X ims d st = (Inr (ref\<lparr>Tag_of := [], ID := d\<rparr>), st2)"
  using assms by (simp add: resolveUpstreamRef_def)

text \<open>
  Claim C2, as amended. Let the direct resolution of \<open>d\<close> fail (as it does when \<open>d\<close> has
  no entry in the tag history), and let \<open>(parent, ibr)\<close> be the first entry of the layers
  view, in the order of the walk, whose manifests hold \<open>d\<close>: no entry visited earlier
  holds it. Let \<open>parent\<close> be non-empty and resolve to the tag event \<open>pe\<close> whose
  reference parses to \<open>ref\<close>, and let the image fetch for \<open>d\<close> succeed. Then
  \<^verbatim>\<open>GetImageOfImageStream\<close> returns the stored image with \<^verbatim>\<open>DockerImageReference\<close>
  set to the rendering of a reference \<open>r\<close> that has the registry, namespace and name of
  \<open>ref\<close>, an empty tag and the ID \<open>d\<close>.
\<close>

theorem GetImageOfImageStream_sub_manifest:
  assumes "wf_state st"
      and "getImageOfImageStream X ims d st = (Inl err, st1)"
      and "cachedImageStreamGetter_layers X ims st1 = (Inr layers, st2)"
      and "Images layers = earlier @ (parent, ibr) # later"
      and "\<forall>(p', ibr') \<in> set earlier. d \<notin> set (Manifests ibr')"
      and "d \<in> set (Manifests ibr)"
      and "parent \<noteq> []"
      and "ResolveImageID X ims parent st2 = (Inr pe, st3)"
      and "reference_Parse X (TagEvent_DockerImageReference pe) = Inr ref"
      and "getImage X ims d st3 = (Inr p, st4)"
  shows "\<exists>q st' r. GetImageOfImageStream X ims d st = (Inr q, st')
           \<and> p < length (images st4)
           \<and> deref st' q = (deref st4 p)\<lparr>Image_DockerImageReference := reference_String X r\<rparr>
           \<and> Registry r = Registry ref \<and> Namespace r = Namespace ref \<and> Name r = Name ref
           \<and> Tag_of r = [] \<and> ID r = d"
proof -
  let ?r = "ref\<lparr>Tag_of := [], ID := d\<rparr>"
  let ?st' = "st4\<lparr>images := images st4 @
                [(deref st4 p)\<lparr>Image_DockerImageReference := reference_String X ?r\<rparr>]\<rparr>"
  from findParent_first[OF assms(4,5,6)] have walk: "findParent (Images layers) d = parent" .
  from getImageOfImageStream_fails_wf[OF assms(1,2)] have "wf_state st1" .
  with layers_frame[OF assms(3)] have "wf_state st2"
    by (simp add: wf_state_def)
  with ResolveImageID_frame[OF assms(8)] have "wf_state st3"
    by (simp add: wf_state_def)
  from getImage_frame[OF this assms(10)] have p: "p < length (images st4)"
    by simp
  have "GetImageOfImageStream X ims d st = (Inr (length (images st4)), ?st')"
    using assms(2) resolveUpstreamRef_found[OF assms(3) walk assms(7,8,9)] assms(10)
    by (simp add: GetImageOfImageStream_def alloc_def)
  moreover have "deref ?st' (length (images st4))
                   = (deref st4 p)\<lparr>Image_DockerImageReference := reference_String X ?r\<rparr>"
    by (simp add: deref_def)
  moreover have "Registry ?r = Registry ref \<and> Namespace ?r = Namespace ref
                   \<and> Name ?r = Name ref \<and> Tag_of ?r = [] \<and> ID ?r = d"
    by simp
  ultimately show ?thesis
    using p by blast
qed

text \<open>
  In the example the walk passes the manifest list \<open>sha256:dddd\<close>, which does not hold
  \<open>sha256:bbbb\<close>, before it comes to \<open>sha256:aaaa\<close>.
\<close>

theorem GetImageOfImageStream_sub_manifest_witness:
  "\<exists>q st'. GetImageOfImageStream ex_X (ex_ims ex_layers None None) (ex_digest CHR ''b'') (new_state 0)
              = (Inr q, st')
     \<and> Image_DockerImageReference (deref st' q) = ''quay.example/team/app@'' @ ex_digest CHR ''b''"
proof -
  define ims where "ims = ex_ims ex_layers None None"
  define D where "D = getImageOfImageStream ex_X ims (ex_digest CHR ''b'') (new_state 0)"
  define L where "L = cachedImageStreamGetter_layers ex_X ims (snd D)"
  define R where "R = ResolveImageID ex_X ims (ex_digest CHR ''a'') (snd L)"
  define G where "G = getImage ex_X ims (ex_digest CHR ''b'') (snd R)"
  define ref where "ref = \<lparr>Registry = ''quay.example'', Namespace = ''team'', Name = ''app'',
                Tag_of = ''v1'', ID = []\<rparr>"
  note defs = ims_def D_def L_def R_def G_def ref_def resolver_defs ex_defs
  have h2: "getImageOfImageStream ex_X ims (ex_digest CHR ''b'') (new_state 0)
              = (Inl (projl (fst D)), snd D)"
    by (simp add: defs)
  have h3: "cachedImageStreamGetter_layers ex_X ims (snd D) = (Inr ex_layers, snd L)"
    by (simp add: defs)
  have h4: "Images ex_layers = [(ex_digest CHR ''d'', ex_blobs [ex_digest CHR ''f''])]
              @ (ex_digest CHR ''a'', ex_blobs [ex_digest CHR ''b'']) # []"
    by (simp add: ex_layers_def)
  have h5: "\<forall>(p', ibr') \<in> set [(ex_digest CHR ''d'', ex_blobs [ex_digest CHR ''f''])].
              ex_digest CHR ''b'' \<notin> set (Manifests ibr')"
    by (simp add: ex_blobs_def ex_digest_def)
  have h6: "ex_digest CHR ''b'' \<in> set (Manifests (ex_blobs [ex_digest CHR ''b'']))"
    by (simp add: ex_blobs_def)
  have h7: "ex_digest CHR ''a'' \<noteq> []"
    by (simp add: ex_digest_def)
  have h8: "ResolveImageID ex_X ims (ex_digest CHR ''a'') (snd L) = (Inr (projr (fst R)), snd R)"
    by (simp add: defs)
  have h9: "reference_Parse ex_X (TagEvent_DockerImageReference (projr (fst R))) = Inr ref"
    by (simp add: defs)
  have h10: "getImage ex_X ims (ex_digest CHR ''b'') (snd R) = (Inr (projr (fst G)), snd G)"
    by (simp add: defs)
  from GetImageOfImageStream_sub_manifest[OF wf_new_state h2 h3 h4 h5 h6 h7 h8 h9 h10]
  obtain q st' r
    where g: "GetImageOfImageStream ex_X ims (ex_digest CHR ''b'') (new_state 0) = (Inr q, st')"
    and img: "deref st' q = (deref (snd G) (projr (fst G)))
                \<lparr>Image_DockerImageReference := reference_String ex_X r\<rparr>"
    and r: "Registry r = Registry ref" "Namespace r = Namespace ref" "Name r = Name ref"
           "Tag_of r = []" "ID r = ex_digest CHR ''b''"
    by blast
  from r have "reference_String ex_X r = ''quay.example/team/app@'' @ ex_digest CHR ''b''"
    by (simp add: ref_def ex_X_def ex_String_def ex_digest_Parse_def ex_digest_def
          list_all_replicate_iff)
  with g img show ?thesis
    unfolding ims_def by simp
qed

text \<open>
  Claim C2 as stated fails when the digest belongs to several manifest lists. Here
  \<open>sha256:bbbb\<close> is absent from the tag history and a member of the manifest list
  \<open>sha256:aaaa\<close>, which resolves to a reference of the registry \<open>quay.example\<close> that
  parses, and the image fetch succeeds; but the walk visits \<open>sha256:dddd\<close> first, and
  the reference of the returned image has the registry \<open>docker.example\<close>.
\<close>

theorem sub_manifest_of_two_lists_counterexample:
  "(\<exists>err st1. ResolveImageID ex_X (ex_ims ex_layers2 None None) (ex_digest CHR ''b'') (new_state 0)
                 = (Inl err, st1))
   \<and> ((ex_digest CHR ''a''), ex_blobs [(ex_digest CHR ''b'')]) \<in> set (Images ex_layers2)
   \<and> (\<exists>e st1 ref. ResolveImageID ex_X (ex_ims ex_layers2 None None) (ex_digest CHR ''a'') (new_state 0)
                 = (Inr e, st1)
          \<and> reference_Parse ex_X (TagEvent_DockerImageReference e) = Inr ref
          \<and> Registry ref = ''quay.example'')
   \<and> (\<exists>p st1. getImage ex_X (ex_ims ex_layers2 None None) (ex_digest CHR ''b'') (new_state 0)
                 = (Inr p, st1))
   \<and> (\<exists>q st' r. GetImageOfImageStream ex_X (ex_ims ex_layers2 None None) (ex_digest CHR ''b'')
                   (new_state 0) = (Inr q, st')
          \<and> reference_Parse ex_X (Image_DockerImageReference (deref st' q)) = Inr r
          \<and> Registry r = ''docker.example'' \<and> Registry r \<noteq> ''quay.example'')"
  by (simp add: resolver_defs ex_defs)

text \<open>
  Claim C3. When the digest is absent from the tag history of the cached stream
  (\<^verbatim>\<open>ResolveImageID\<close> fails) and no entry of the layers view holds it among its
  manifests, \<^verbatim>\<open>GetImageOfImageStream\<close> fails with the code
  \<^verbatim>\<open>ErrImageStreamImageNotFoundCode\<close>.
\<close>

theorem GetImageOfImageStream_not_found:
  assumes "ResolveImageID X ims d st = (Inl err, st1)"
      and "cachedImageStreamGetter_layers X ims st1 = (Inr layers, st2)"
      and "\<forall>(p, ibr) \<in> set (Images layers). d \<notin> set (Manifests ibr)"
  shows "\<exists>e. GetImageOfImageStream X ims d st = (Inl e, st2)
           \<and> Code e = ErrImageStreamImageNotFoundCode"
proof -
  from assms(1) have direct: "getImageOfImageStream X ims d st = (Inl err, st1)"
    by (simp add: getImageOfImageStream_Inl)
  from assms(3) have "findParent (Images layers) d = []"
    by (rule findParent_none)
  with assms(2) have "\<exists>e. resolveUpstreamRef X ims d st1 = (Inl e, st2)
      \<and> Code e = ErrImageStreamImageNotFoundCode"
    by (simp add: resolveUpstreamRef_def)
  with direct show ?thesis
    by (auto simp: GetImageOfImageStream_def)
qed

theorem GetImageOfImageStream_not_found_witness:
  "\<exists>e st'. GetImageOfImageStream ex_X (ex_ims ex_layers None None) (ex_digest CHR ''c'') (new_state 0)
              = (Inl e, st')
     \<and> Code e = ''ImageStream:ImageNotFound''"
proof -
  define ims where "ims = ex_ims ex_layers None None"
  define R where "R = ResolveImageID ex_X ims (ex_digest CHR ''c'') (new_state 0)"
  define L where "L = cachedImageStreamGetter_layers ex_X ims (snd R)"
  note defs = ims_def R_def L_def resolver_defs ex_defs
  have h1: "ResolveImageID ex_X ims (ex_digest CHR ''c'') (new_state 0) = (Inl (projl (fst R)), snd R)"
    by (simp add: defs)
  have h2: "cachedImageStreamGetter_layers ex_X ims (snd R) = (Inr ex_layers, snd L)"
    by (simp add: defs)
  have h3: "\<forall>(p, ibr) \<in> set (Images ex_layers). (ex_digest CHR ''c'') \<notin> set (Manifests ibr)"
    by (simp add: defs)
  from GetImageOfImageStream_not_found[OF h1 h2 h3] show ?thesis
    unfolding ims_def by (auto simp: ErrImageStreamImageNotFoundCode_def ErrImageStreamCode_def)
qed

lemma ResolveImageID_error_message:
  assumes "ResolveImageID X ims d st = (Inl e, st1)"
  shows "take 1 (Message e) = ''R''"
  using assms
  by (auto simp: ResolveImageID_def convertImageStreamGetterError_def
           split: prod.splits sum.splits if_splits)

lemma getImage_error_message:
  assumes "getImage X ims d st = (Inl e, st1)"
  shows "take 1 (Message e) = ''g''"
  using assms
  by (auto simp: getImage_def split: prod.splits sum.splits if_splits)

lemma direct_error_message:
  assumes "getImageOfImageStream X ims d st = (Inl e, st1)"
  shows "take 1 (Message e) = ''R'' \<or> take 1 (Message e) = ''g''"
  using assms ResolveImageID_error_message getImage_error_message
  unfolding getImageOfImageStream_Inl by blast

lemma upstream_error_message:
  assumes "resolveUpstreamRef X ims d st = (Inl e, st1)"
  shows "take 20 (Message e) = ''resolveUpstreamRef: ''"
  using assms
  by (auto simp: resolveUpstreamRef_def Let_def split: prod.splits sum.splits if_splits)

text \<open>
  Claim C8. When the direct resolution fails with \<open>e1\<close> and the parent resolution that
  follows fails with \<open>e2\<close>, \<^verbatim>\<open>GetImageOfImageStream\<close> returns exactly \<open>e2\<close>, code and
  message, and \<open>e2\<close> is another error than \<open>e1\<close>: its message is not the message of
  \<open>e1\<close>.
\<close>

theorem GetImageOfImageStream_reports_parent_failure:
  assumes "getImageOfImageStream X ims d st = (Inl e1, st1)"
      and "resolveUpstreamRef X ims d st1 = (Inl e2, st2)"
  shows "GetImageOfImageStream X ims d st = (Inl e2, st2) \<and> Message e2 \<noteq> Message e1"
proof -
  from upstream_error_message[OF assms(2)] have "take 1 (take 20 (Message e2)) = ''r''"
    by simp
  then have "take 1 (Message e2) = ''r''"
    by simp
  with direct_error_message[OF assms(1)] have "Message e2 \<noteq> Message e1"
    by auto
  with assms show ?thesis
    by (simp add: GetImageOfImageStream_def)
qed

theorem GetImageOfImageStream_reports_parent_failure_witness:
  "\<exists>e st'. GetImageOfImageStream ex_X (ex_ims ex_layers3 None None) (ex_digest CHR ''b'') (new_state 0)
              = (Inl e, st')
     \<and> Message e
         = (''resolveUpstreamRef: unable to get parent event '' @ ex_digest CHR ''e'' @ '' in image stream ns/app'')"
proof -
  define ims where "ims = ex_ims ex_layers3 None None"
  define D where "D = getImageOfImageStream ex_X ims (ex_digest CHR ''b'') (new_state 0)"
  define U where "U = resolveUpstreamRef ex_X ims (ex_digest CHR ''b'') (snd D)"
  note defs = ims_def D_def U_def resolver_defs ex_defs
  have h1: "getImageOfImageStream ex_X ims (ex_digest CHR ''b'') (new_state 0) = (Inl (projl (fst D)), snd D)"
    by (simp add: defs)
  have h2: "resolveUpstreamRef ex_X ims (ex_digest CHR ''b'') (snd D) = (Inl (projl (fst U)), snd U)"
    by (simp add: defs)
  have m: "Message (projl (fst U))
         = (''resolveUpstreamRef: unable to get parent event '' @ ex_digest CHR ''e'' @ '' in image stream ns/app'')"
    by (simp add: defs)
  from GetImageOfImageStream_reports_parent_failure[OF h1 h2] m show ?thesis
    unfolding ims_def by simp
qed

section \<open>The stored image is never written\<close>

lemma take_length_append_iff: "take (length xs) ys = xs \<longleftrightarrow> (\<exists>zs. ys = xs @ zs)"
  by (metis append_eq_conv_conj)

lemma take_prefix_trans:
  "take (length a) b = a \<Longrightarrow> take (length b) c = b \<Longrightarrow> take (length a) c = a"
  by (metis take_length_append_iff append.assoc)

lemma getImage_Inr:
  "getImage X ims d st = (Inr p, st') \<longleftrightarrow> imageClient_Get ims d st = (Inr p, st')"
  by (auto simp: getImage_def split: prod.splits sum.splits if_splits)

text \<open>A fetch that fails leaves the store and the cache of the image getter as they are.\<close>

lemma imageClient_Get_Inl:
  "imageClient_Get ims d st = (Inl e, st') \<Longrightarrow>
     images st' = images st \<and> imageCache st' = imageCache st"
  by (auto simp: imageClient_Get_def alloc_def Let_def split: option.splits prod.splits sum.splits)

lemma getImage_Inl:
  assumes "getImage X ims d st = (Inl e, st')"
  shows "images st' = images st \<and> imageCache st' = imageCache st"
proof -
  from assms obtain err where "imageClient_Get ims d st = (Inl err, st')"
    by (auto simp: getImage_def split: prod.splits sum.splits if_splits)
  then show ?thesis
    by (rule imageClient_Get_Inl)
qed

lemma direct_fails_frame:
  assumes "getImageOfImageStream X ims d st = (Inl err, st')"
  shows "images st' = images st \<and> imageCache st' = imageCache st"
proof -
  from assms consider
      "ResolveImageID X ims d st = (Inl err, st')"
    | e0 st0 where "ResolveImageID X ims d st = (Inr e0, st0)"
        "getImage X ims d st0 = (Inl err, st')"
    unfolding getImageOfImageStream_Inl by blast
  then show ?thesis
  proof cases
    case 1
    then show ?thesis by (rule ResolveImageID_frame)
  next
    case 2
    from ResolveImageID_frame[OF 2(1)] getImage_Inl[OF 2(2)] show ?thesis
      by simp
  qed
qed

text \<open>
  A successful direct resolution, step by step from the state \<open>st\<close> of the call: the
  tag event, the pointer \<open>p\<close> that the image getter returns in the state \<open>stg\<close>, and
  the final state, which is \<open>stg\<close> with one object appended.
\<close>

lemma direct_succeeds_chain:
  assumes "wf_state st" and "getImageOfImageStream X ims d st = (Inr q, s1)"
  shows "\<exists>e st1 p stg.
           ResolveImageID X ims d st = (Inr e, st1)
           \<and> imageClient_Get ims d st1 = (Inr p, stg)
           \<and> p < length (images stg) \<and> q = length (images stg)
           \<and> s1 = stg\<lparr>images := images stg @
                    [(deref stg p)\<lparr>Image_DockerImageReference :=
                        TagEvent_DockerImageReference e\<rparr>]\<rparr>"
proof -
  obtain r1 st1 where R: "ResolveImageID X ims d st = (r1, st1)"
    by (cases "ResolveImageID X ims d st")
  from ResolveImageID_frame[OF R] assms(1) have wf1: "wf_state st1"
    by (auto simp: wf_state_def)
  show ?thesis
  proof (cases r1)
    case (Inl e)
    with R assms(2) show ?thesis
      by (simp add: getImageOfImageStream_def getStoredImageOfImageStream_def)
  next
    case e: (Inr e)
    obtain r2 stg where G: "getImage X ims d st1 = (r2, stg)"
      by (cases "getImage X ims d st1")
    show ?thesis
    proof (cases r2)
      case (Inl e2)
      with R e G assms(2) show ?thesis
        by (simp add: getImageOfImageStream_def getStoredImageOfImageStream_def)
    next
      case (Inr p)
      from getImageOfImageStream_direct[OF R[unfolded e] G[unfolded Inr]] assms(2)
      have "q = length (images stg)"
        and "s1 = stg\<lparr>images := images stg @
                    [(deref stg p)\<lparr>Image_DockerImageReference :=
                        TagEvent_DockerImageReference e\<rparr>]\<rparr>"
        by simp_all
      moreover from getImage_frame[OF wf1 G[unfolded Inr]] have "p < length (images stg)"
        by simp
      moreover from G Inr have "imageClient_Get ims d st1 = (Inr p, stg)"
        by (simp add: getImage_Inr)
      ultimately show ?thesis
        using R e by blast
    qed
  qed
qed

text \<open>The same for a resolution through the parent, after the direct one has failed.\<close>

lemma parent_succeeds_chain:
  assumes "wf_state st"
      and "getImageOfImageStream X ims d st = (Inl e1, st1)"
      and "GetImageOfImageStream X ims d st = (Inr q, s2)"
  shows "\<exists>ref st2 p stg.
           resolveUpstreamRef X ims d st1 = (Inr ref, st2)
           \<and> imageClient_Get ims d st2 = (Inr p, stg)
           \<and> p < length (images stg) \<and> q = length (images stg)
           \<and> s2 = stg\<lparr>images := images stg @
                    [(deref stg p)\<lparr>Image_DockerImageReference := reference_String X ref\<rparr>]\<rparr>"
proof -
  from getImageOfImageStream_fails_wf[OF assms(1,2)] have wf1: "wf_state st1" .
  obtain r2 st2 where U: "resolveUpstreamRef X ims d st1 = (r2, st2)"
    by (cases "resolveUpstreamRef X ims d st1")
  from resolveUpstreamRef_frame[OF U] wf1 have wf2: "wf_state st2"
    by (auto simp: wf_state_def)
  show ?thesis
  proof (cases r2)
    case (Inl e2)
    with assms(2,3) U show ?thesis
      by (simp add: GetImageOfImageStream_def)
  next
    case ref: (Inr ref)
    obtain r3 stg where G: "getImage X ims d st2 = (r3, stg)"
      by (cases "getImage X ims d st2")
    show ?thesis
    proof (cases r3)
      case (Inl e3)
      with assms(2,3) U ref G show ?thesis
        by (simp add: GetImageOfImageStream_def)
    next
      case (Inr p)
      with assms(2,3) U ref G
      have "q = length (images stg)"
        and "s2 = stg\<lparr>images := images stg @
                    [(deref stg p)\<lparr>Image_DockerImageReference := reference_String X ref\<rparr>]\<rparr>"
        by (simp_all add: GetImageOfImageStream_def alloc_def)
      moreover from getImage_frame[OF wf2 G[unfolded Inr]] have "p < length (images stg)"
        by simp
      moreover from G Inr have "imageClient_Get ims d st2 = (Inr p, stg)"
        by (simp add: getImage_Inr)
      ultimately show ?thesis
        using U ref by blast
    qed
  qed
qed

lemma GetImageOfImageStream_fails_frame:
  assumes "GetImageOfImageStream X ims d st = (Inl err, s2)"
  shows "images s2 = images st \<and> imageCache s2 = imageCache st"
proof -
  obtain r1 st1 where D: "getImageOfImageStream X ims d st = (r1, st1)"
    by (cases "getImageOfImageStream X ims d st")
  show ?thesis
  proof (cases r1)
    case (Inr q)
    with D assms show ?thesis
      by (simp add: GetImageOfImageStream_def)
  next
    case e1: (Inl e1)
    note f1 = direct_fails_frame[OF D[unfolded e1]]
    obtain r2 st2 where U: "resolveUpstreamRef X ims d st1 = (r2, st2)"
      by (cases "resolveUpstreamRef X ims d st1")
    note f2 = resolveUpstreamRef_frame[OF U]
    show ?thesis
    proof (cases r2)
      case (Inl e2)
      with D e1 U assms have "s2 = st2"
        by (simp add: GetImageOfImageStream_def)
      with f1 f2 show ?thesis by simp
    next
      case ref: (Inr ref)
      obtain r3 st3 where G: "getImage X ims d st2 = (r3, st3)"
        by (cases "getImage X ims d st2")
      show ?thesis
      proof (cases r3)
        case (Inl e3)
        with D e1 U ref G assms have "s2 = st3"
          by (simp add: GetImageOfImageStream_def)
        with f1 f2 getImage_Inl[OF G[unfolded Inl]] show ?thesis by simp
      next
        case (Inr p)
        with D e1 U ref G assms show ?thesis
          by (simp add: GetImageOfImageStream_def alloc_def)
      qed
    qed
  qed
qed

text \<open>The objects that exist when the image getter is called are a prefix of the store after.\<close>

lemma imageClient_Get_prefix:
  assumes "wf_state st" and "imageClient_Get ims d st = (r, st')"
  shows "take (length (images st)) (images st') = images st"
  using imageClient_Get_frame[OF assms] by simp

text \<open>
  Claim C9. In a well-formed state \<open>st\<close>, for \<^verbatim>\<open>getImageOfImageStream\<close> and for
  \<^verbatim>\<open>GetImageOfImageStream\<close>: a call that fails leaves the store of \<^verbatim>\<open>Image\<close>
  objects and the cache of the image getter as they were. A call that succeeds ends in
  the very state \<open>stg\<close> in which its own call of the image getter returned the pointer
  \<open>p\<close> (the steps from \<open>st\<close> to that call are spelled out), extended by one new
  object, the returned one: the copy of the object at \<open>p\<close> with another
  \<^verbatim>\<open>DockerImageReference\<close>. So the object obtained from the getter, fetched during the call
  or before, and every field of it stay as the getter left them, and so does every other
  object that exists.
\<close>

theorem stored_image_not_mutated:
  assumes "wf_state st"
      and "getImageOfImageStream X ims d st = (res1, s1)"
      and "GetImageOfImageStream X ims d st = (res2, s2)"
  shows "(\<forall>err. res1 = Inl err \<longrightarrow> images s1 = images st \<and> imageCache s1 = imageCache st)
       \<and> (\<forall>err. res2 = Inl err \<longrightarrow> images s2 = images st \<and> imageCache s2 = imageCache st)
       \<and> (\<forall>q. res1 = Inr q \<longrightarrow>
            (\<exists>e st1 p stg.
               ResolveImageID X ims d st = (Inr e, st1)
               \<and> imageClient_Get ims d st1 = (Inr p, stg)
               \<and> take (length (images st)) (images stg) = images st
               \<and> p < length (images stg) \<and> q = length (images stg)
               \<and> s1 = stg\<lparr>images := images stg @
                        [(deref stg p)\<lparr>Image_DockerImageReference :=
                            TagEvent_DockerImageReference e\<rparr>]\<rparr>))
       \<and> (\<forall>q. res2 = Inr q \<longrightarrow>
            (\<exists>e st1 p stg.
               ResolveImageID X ims d st = (Inr e, st1)
               \<and> imageClient_Get ims d st1 = (Inr p, stg)
               \<and> take (length (images st)) (images stg) = images st
               \<and> p < length (images stg) \<and> q = length (images stg)
               \<and> s2 = stg\<lparr>images := images stg @
                        [(deref stg p)\<lparr>Image_DockerImageReference :=
                            TagEvent_DockerImageReference e\<rparr>]\<rparr>)
            \<or> (\<exists>e1 st1 ref st2 p stg.
               getImageOfImageStream X ims d st = (Inl e1, st1)
               \<and> resolveUpstreamRef X ims d st1 = (Inr ref, st2)
               \<and> imageClient_Get ims d st2 = (Inr p, stg)
               \<and> take (length (images st)) (images stg) = images st
               \<and> p < length (images stg) \<and> q = length (images stg)
               \<and> s2 = stg\<lparr>images := images stg @
                        [(deref stg p)\<lparr>Image_DockerImageReference :=
                            reference_String X ref\<rparr>]\<rparr>))"
proof -
  have direct: "\<exists>e st1 p stg.
               ResolveImageID X ims d st = (Inr e, st1)
               \<and> imageClient_Get ims d st1 = (Inr p, stg)
               \<and> take (length (images st)) (images stg) = images st
               \<and> p < length (images stg) \<and> q = length (images stg)
               \<and> s = stg\<lparr>images := images stg @
                        [(deref stg p)\<lparr>Image_DockerImageReference :=
                            TagEvent_DockerImageReference e\<rparr>]\<rparr>"
    if run: "getImageOfImageStream X ims d st = (Inr q, s)" for q s
  proof -
    from direct_succeeds_chain[OF assms(1) run]
    obtain e st1 p stg where c: "ResolveImageID X ims d st = (Inr e, st1)"
        "imageClient_Get ims d st1 = (Inr p, stg)"
        "p < length (images stg)" "q = length (images stg)"
        "s = stg\<lparr>images := images stg @
                 [(deref stg p)\<lparr>Image_DockerImageReference :=
                     TagEvent_DockerImageReference e\<rparr>]\<rparr>"
      by blast
    from ResolveImageID_frame[OF c(1)] assms(1)
    have same: "images st1 = images st" and "wf_state st1"
      by (auto simp: wf_state_def)
    from imageClient_Get_prefix[OF this(2) c(2)] same
    have "take (length (images st)) (images stg) = images st"
      by simp
    with c show ?thesis
      by blast
  qed
  have parent: "\<exists>e1 st1 ref st2 p stg.
               getImageOfImageStream X ims d st = (Inl e1, st1)
               \<and> resolveUpstreamRef X ims d st1 = (Inr ref, st2)
               \<and> imageClient_Get ims d st2 = (Inr p, stg)
               \<and> take (length (images st)) (images stg) = images st
               \<and> p < length (images stg) \<and> q = length (images stg)
               \<and> s2 = stg\<lparr>images := images stg @
                        [(deref stg p)\<lparr>Image_DockerImageReference :=
                            reference_String X ref\<rparr>]\<rparr>"
    if failed: "getImageOfImageStream X ims d st = (Inl e1, st1)"
      and run: "GetImageOfImageStream X ims d st = (Inr q, s2)" for e1 st1 q
  proof -
    from parent_succeeds_chain[OF assms(1) failed run]
    obtain ref st2 p stg where c: "resolveUpstreamRef X ims d st1 = (Inr ref, st2)"
        "imageClient_Get ims d st2 = (Inr p, stg)"
        "p < length (images stg)" "q = length (images stg)"
        "s2 = stg\<lparr>images := images stg @
                 [(deref stg p)\<lparr>Image_DockerImageReference := reference_String X ref\<rparr>]\<rparr>"
      by blast
    from getImageOfImageStream_fails_wf[OF assms(1) failed] have wf1: "wf_state st1" .
    from resolveUpstreamRef_frame[OF c(1)] direct_fails_frame[OF failed] wf1
    have same: "images st2 = images st" and "wf_state st2"
      by (auto simp: wf_state_def)
    from imageClient_Get_prefix[OF this(2) c(2)] same
    have "take (length (images st)) (images stg) = images st"
      by simp
    with c failed show ?thesis
      by blast
  qed
  have 1: "\<forall>err. res1 = Inl err \<longrightarrow> images s1 = images st \<and> imageCache s1 = imageCache st"
    using direct_fails_frame assms(2) by blast
  have 2: "\<forall>err. res2 = Inl err \<longrightarrow> images s2 = images st \<and> imageCache s2 = imageCache st"
    using GetImageOfImageStream_fails_frame assms(3) by blast
  have 3: "\<forall>q. res1 = Inr q \<longrightarrow>
            (\<exists>e st1 p stg.
               ResolveImageID X ims d st = (Inr e, st1)
               \<and> imageClient_Get ims d st1 = (Inr p, stg)
               \<and> take (length (images st)) (images stg) = images st
               \<and> p < length (images stg) \<and> q = length (images stg)
               \<and> s1 = stg\<lparr>images := images stg @
                        [(deref stg p)\<lparr>Image_DockerImageReference :=
                            TagEvent_DockerImageReference e\<rparr>]\<rparr>)"
    using direct assms(2) by blast
  have 4: "\<forall>q. res2 = Inr q \<longrightarrow>
            (\<exists>e st1 p stg.
               ResolveImageID X ims d st = (Inr e, st1)
               \<and> imageClient_Get ims d st1 = (Inr p, stg)
               \<and> take (length (images st)) (images stg) = images st
               \<and> p < length (images stg) \<and> q = length (images stg)
               \<and> s2 = stg\<lparr>images := images stg @
                        [(deref stg p)\<lparr>Image_DockerImageReference :=
                            TagEvent_DockerImageReference e\<rparr>]\<rparr>)
            \<or> (\<exists>e1 st1 ref st2 p stg.
               getImageOfImageStream X ims d st = (Inl e1, st1)
               \<and> resolveUpstreamRef X ims d st1 = (Inr ref, st2)
               \<and> imageClient_Get ims d st2 = (Inr p, stg)
               \<and> take (length (images st)) (images stg) = images st
               \<and> p < length (images stg) \<and> q = length (images stg)
               \<and> s2 = stg\<lparr>images := images stg @
                        [(deref stg p)\<lparr>Image_DockerImageReference :=
                            reference_String X ref\<rparr>]\<rparr>)"
  proof (intro allI impI)
    fix q
    assume q: "res2 = Inr q"
    show "(\<exists>e st1 p stg.
               ResolveImageID X ims d st = (Inr e, st1)
               \<and> imageClient_Get ims d st1 = (Inr p, stg)
               \<and> take (length (images st)) (images stg) = images st
               \<and> p < length (images stg) \<and> q = length (images stg)
               \<and> s2 = stg\<lparr>images := images stg @
                        [(deref stg p)\<lparr>Image_DockerImageReference :=
                            TagEvent_DockerImageReference e\<rparr>]\<rparr>)
            \<or> (\<exists>e1 st1 ref st2 p stg.
               getImageOfImageStream X ims d st = (Inl e1, st1)
               \<and> resolveUpstreamRef X ims d st1 = (Inr ref, st2)
               \<and> imageClient_Get ims d st2 = (Inr p, stg)
               \<and> take (length (images st)) (images stg) = images st
               \<and> p < length (images stg) \<and> q = length (images stg)
               \<and> s2 = stg\<lparr>images := images stg @
                        [(deref stg p)\<lparr>Image_DockerImageReference :=
                            reference_String X ref\<rparr>]\<rparr>)"
    proof (cases res1)
      case (Inr q1)
      with assms(2,3) q have "getImageOfImageStream X ims d st = (Inr q, s2)"
        by (simp add: GetImageOfImageStream_def)
      from direct[OF this] show ?thesis ..
    next
      case (Inl e1)
      from parent[OF assms(2)[unfolded Inl] assms(3)[unfolded q]] show ?thesis ..
    qed
  qed
  from 1 2 3 4 show ?thesis
    by (intro conjI)
qed

text \<open>
  In the example the digest is resolved for the first time, so the image is fetched
  during the call: the object at \<open>p\<close> is the fetched image, with its own reference.
\<close>

theorem stored_image_not_mutated_witness:
  "\<exists>q e st1 p stg.
     GetImageOfImageStream ex_X (ex_ims ex_layers None None) (ex_digest CHR ''a'') (new_state 0)
       = (Inr q, stg\<lparr>images := images stg @
                    [(deref stg p)\<lparr>Image_DockerImageReference :=
                        TagEvent_DockerImageReference e\<rparr>]\<rparr>)
     \<and> ResolveImageID ex_X (ex_ims ex_layers None None) (ex_digest CHR ''a'') (new_state 0)
         = (Inr e, st1)
     \<and> imageClient_Get (ex_ims ex_layers None None) (ex_digest CHR ''a'') st1 = (Inr p, stg)
     \<and> deref stg p = ex_image (ex_digest CHR ''a'')
     \<and> TagEvent_DockerImageReference e = ''quay.example/team/app:v1''
     \<and> p < q"
proof -
  define ims where "ims = ex_ims ex_layers None None"
  define D where "D = getImageOfImageStream ex_X ims (ex_digest CHR ''a'') (new_state 0)"
  define G where "G = GetImageOfImageStream ex_X ims (ex_digest CHR ''a'') (new_state 0)"
  define R where "R = ResolveImageID ex_X ims (ex_digest CHR ''a'') (new_state 0)"
  define C where "C = imageClient_Get ims (ex_digest CHR ''a'') (snd R)"
  note defs = ims_def D_def G_def R_def C_def resolver_defs ex_defs
  have h2: "getImageOfImageStream ex_X ims (ex_digest CHR ''a'') (new_state 0)
              = (Inr (projr (fst D)), snd D)"
    by (simp add: defs)
  have h3: "GetImageOfImageStream ex_X ims (ex_digest CHR ''a'') (new_state 0)
              = (Inr (projr (fst G)), snd G)"
    by (simp add: defs)
  have r: "ResolveImageID ex_X ims (ex_digest CHR ''a'') (new_state 0)
              = (Inr (projr (fst R)), snd R)"
    by (simp add: defs)
  have c: "imageClient_Get ims (ex_digest CHR ''a'') (snd R) = (Inr (projr (fst C)), snd C)"
    by (simp add: defs)
  have v: "deref (snd C) (projr (fst C)) = ex_image (ex_digest CHR ''a'')"
          "TagEvent_DockerImageReference (projr (fst R)) = ''quay.example/team/app:v1''"
    by (simp_all add: defs)
  from stored_image_not_mutated[OF wf_new_state h2 h3] h2
  obtain e st1 p stg where chain: "ResolveImageID ex_X ims (ex_digest CHR ''a'') (new_state 0) = (Inr e, st1)"
      "imageClient_Get ims (ex_digest CHR ''a'') st1 = (Inr p, stg)"
      "p < length (images stg)" "projr (fst G) = length (images stg)"
      "snd G = stg\<lparr>images := images stg @
                 [(deref stg p)\<lparr>Image_DockerImageReference :=
                     TagEvent_DockerImageReference e\<rparr>]\<rparr>"
    by auto
  from chain(1) r have e: "e = projr (fst R)" and st1: "st1 = snd R"
    by simp_all
  from chain(2) c st1 have p: "p = projr (fst C)" and stg: "stg = snd C"
    by simp_all
  from h3 chain r c v e st1 p stg show ?thesis
    unfolding ims_def by auto
qed

section \<open>Insecure transport\<close>

lemma specTagInsecure_find:
  "specTagInsecure ts tag =
     map_option (\<lambda>t. Insecure (ImportPolicy t)) (find (\<lambda>t. TagReference_Name t = tag) ts)"
  by (induction ts) auto

text \<open>
  Claim C4. With the cached stream at hand, \<^verbatim>\<open>TagIsInsecure\<close> returns true whenever the
  insecure-repository annotation of the stream is \<open>true\<close>, whatever the tag policies say.
  Otherwise (the annotation is not set, or has any other value) and for a non-empty tag
  name it returns the \<^verbatim>\<open>ImportPolicy.Insecure\<close> flag of the spec tag of that name (false
  when the spec has no such tag). For an empty tag name it first takes the tag name that
  \<^verbatim>\<open>util.LatestImageTagEvent\<close> resolves from the digest and then makes the same lookup
  (false when no tag name is resolved).
\<close>

theorem TagIsInsecure_policy:
  assumes "cachedImageStreamGetter_get X ims st = (Inr stream, st')"
  shows "(annotation stream (InsecureRepositoryAnnotation X) = ''true'' \<longrightarrow>
            TagIsInsecure X ims tag dgst st = (Inr True, st'))
       \<and> (annotation stream (InsecureRepositoryAnnotation X) \<noteq> ''true'' \<and> tag \<noteq> [] \<longrightarrow>
            TagIsInsecure X ims tag dgst st =
              (Inr (case find (\<lambda>t. TagReference_Name t = tag) (Spec_Tags (Spec stream)) of
                      None \<Rightarrow> False | Some t \<Rightarrow> Insecure (ImportPolicy t)), st'))
       \<and> (annotation stream (InsecureRepositoryAnnotation X) \<noteq> ''true'' \<and> tag = [] \<longrightarrow>
            TagIsInsecure X ims tag dgst st =
              (let resolved = fst (util_LatestImageTagEvent X stream dgst) in
               if resolved = [] then (Inr False, st')
               else (Inr (case find (\<lambda>t. TagReference_Name t = resolved)
                                 (Spec_Tags (Spec stream)) of
                            None \<Rightarrow> False | Some t \<Rightarrow> Insecure (ImportPolicy t)), st')))"
  using assms
  by (auto simp: TagIsInsecure_def Let_def specTagInsecure_find split: option.splits)

theorem TagIsInsecure_policy_witness:
  "fst (TagIsInsecure ex_X (ex_ims ex_layers None None) [] (ex_digest CHR ''a'') (new_state 0))
     = Inr True
   \<and> fst (TagIsInsecure ex_X (ex_ims ex_layers None None) ''latest'' (ex_digest CHR ''c'') (new_state 0))
     = Inr True
   \<and> fst (TagIsInsecure ex_X (ex_ims ex_layers None None) ''pending'' (ex_digest CHR ''c'') (new_state 0))
     = Inr False
   \<and> fst (TagIsInsecure ex_X (ex_ims ex_layers None None) ''pending'' (ex_digest CHR ''c'')
            (cacheImageStream ex_insecure_stream (new_state 0)))
     = Inr True"
proof -
  define ims where "ims = ex_ims ex_layers None None"
  define G where "G = cachedImageStreamGetter_get ex_X ims (new_state 0)"
  define st where "st = cacheImageStream ex_insecure_stream (new_state (0::nat))"
  have g: "cachedImageStreamGetter_get ex_X ims (new_state 0) = (Inr ex_stream, snd G)"
    by (simp add: G_def ims_def cachedImageStreamGetter_get_def new_state_def ex_ims_def
          ex_client_def)
  have g': "cachedImageStreamGetter_get ex_X ims st = (Inr ex_insecure_stream, st)"
    by (simp add: st_def cachedImageStreamGetter_get_def cacheImageStream_def)
  have a: "annotation ex_stream (InsecureRepositoryAnnotation ex_X) \<noteq> ''true''"
    by (simp add: annotation_def ex_stream_def ex_X_def)
  have a': "annotation ex_insecure_stream (InsecureRepositoryAnnotation ex_X) = ''true''"
    by (simp add: annotation_def ex_insecure_stream_def ex_X_def)
  have l: "fst (util_LatestImageTagEvent ex_X ex_stream (ex_digest CHR ''a'')) = ''latest''"
    by (simp add: ex_stream_def ex_X_def)
  have f: "find (\<lambda>t. TagReference_Name t = ''latest'') (Spec_Tags (Spec ex_stream))
            = Some \<lparr>TagReference_Name = ''latest'',
                   ImportPolicy = \<lparr>Insecure = True, Scheduled = False\<rparr>\<rparr>"
       "find (\<lambda>t. TagReference_Name t = ''pending'') (Spec_Tags (Spec ex_stream)) = None"
    by (simp_all add: ex_stream_def)
  from TagIsInsecure_policy[OF g, of "[]" "(ex_digest CHR ''a'')"]
       TagIsInsecure_policy[OF g, of "''latest''" "(ex_digest CHR ''c'')"]
       TagIsInsecure_policy[OF g, of "''pending''" "(ex_digest CHR ''c'')"]
       TagIsInsecure_policy[OF g', of "''pending''" "(ex_digest CHR ''c'')"] a a' l f
  show ?thesis
    unfolding ims_def st_def by simp
qed

section \<open>Tags\<close>

lemma Tags_loop_other: "t \<notin> Tag ` set hs \<Longrightarrow> Tags_loop X hs m t = m t"
  by (induction hs arbitrary: m) (auto split: list.splits sum.splits)

lemma Tags_loop_entry:
  assumes "distinct (map Tag hs)" and "h \<in> set hs"
  shows "Tags_loop X hs m (Tag h) =
           (case Items h of
              [] \<Rightarrow> m (Tag h)
            | item # _ \<Rightarrow> (case digest_Parse X (TagEvent_Image item) of
                             Inl err \<Rightarrow> m (Tag h) | Inr g \<Rightarrow> Some g))"
  using assms
proof (induction hs arbitrary: m)
  case Nil
  then show ?case by simp
next
  case (Cons a hs)
  show ?case
  proof (cases "h = a")
    case True
    from Cons.prems(1) have "Tag a \<notin> Tag ` set hs"
      by simp
    then have "\<And>m'. Tags_loop X hs m' (Tag a) = m' (Tag a)"
      by (rule Tags_loop_other)
    with True show ?thesis
      by (simp split: list.splits sum.splits)
  next
    case False
    with Cons.prems have h: "h \<in> set hs" and d: "distinct (map Tag hs)" and ne: "Tag a \<noteq> Tag h"
      by auto
    from Cons.IH[OF d h] ne show ?thesis
      by (simp split: list.splits sum.splits)
  qed
qed

lemma Tags_loop_dom: "dom (Tags_loop X hs m) \<subseteq> dom m \<union> Tag ` set hs"
proof
  fix t
  assume t: "t \<in> dom (Tags_loop X hs m)"
  show "t \<in> dom m \<union> Tag ` set hs"
  proof (rule ccontr)
    assume "t \<notin> dom m \<union> Tag ` set hs"
    then have "t \<notin> Tag ` set hs" and "m t = None"
      by auto
    then have "Tags_loop X hs m t = None"
      by (simp add: Tags_loop_other)
    with t show False
      by auto
  qed
qed

text \<open>
  Claim C10. With the cached stream at hand, and every tag name having one history in
  \<^verbatim>\<open>stream.Status.Tags\<close>, \<^verbatim>\<open>Tags\<close> does not fail and returns a map that holds only
  tag names of that list: a tag whose history is empty is not in the map, and a tag with
  a first item is mapped to the digest parsed from that item's image and is not in the
  map when the parse fails.
\<close>

theorem Tags_first_items:
  assumes "cachedImageStreamGetter_get X ims st = (Inr stream, st')"
      and "distinct (map Tag (Status_Tags (Status stream)))"
  shows "\<exists>m. Tags X ims st = (Inr m, st')
           \<and> dom m \<subseteq> Tag ` set (Status_Tags (Status stream))
           \<and> (\<forall>h \<in> set (Status_Tags (Status stream)).
                 (Items h = [] \<longrightarrow> m (Tag h) = None)
               \<and> (\<forall>item rest. Items h = item # rest \<longrightarrow>
                     m (Tag h) = (case digest_Parse X (TagEvent_Image item) of
                                    Inl err \<Rightarrow> None | Inr g \<Rightarrow> Some g)))"
proof -
  let ?hs = "Status_Tags (Status stream)"
  let ?m = "Tags_loop X ?hs Map.empty"
  from assms(1) have "Tags X ims st = (Inr ?m, st')"
    by (simp add: Tags_def)
  moreover from Tags_loop_dom[of X ?hs Map.empty] have "dom ?m \<subseteq> Tag ` set ?hs"
    by simp
  moreover have "\<forall>h \<in> set ?hs.
                 (Items h = [] \<longrightarrow> ?m (Tag h) = None)
               \<and> (\<forall>item rest. Items h = item # rest \<longrightarrow>
                     ?m (Tag h) = (case digest_Parse X (TagEvent_Image item) of
                                    Inl err \<Rightarrow> None | Inr g \<Rightarrow> Some g))"
    using Tags_loop_entry[OF assms(2), of _ X Map.empty]
    by (auto split: sum.splits)
  ultimately show ?thesis
    by blast
qed

theorem Tags_first_items_witness:
  "\<exists>m st'. Tags ex_X (ex_ims ex_layers None None) (new_state 0) = (Inr m, st')
      \<and> m ''latest'' = Some (ex_digest CHR ''a'') \<and> m ''pending'' = None \<and> m ''broken'' = None"
proof -
  define ims where "ims = ex_ims ex_layers None None"
  define G where "G = cachedImageStreamGetter_get ex_X ims (new_state 0)"
  have g: "cachedImageStreamGetter_get ex_X ims (new_state 0) = (Inr ex_stream, snd G)"
    by (simp add: G_def ims_def cachedImageStreamGetter_get_def new_state_def ex_ims_def ex_client_def)
  have d: "distinct (map Tag (Status_Tags (Status ex_stream)))"
    by (simp add: ex_stream_def)
  from Tags_first_items[OF g d] obtain m where t: "Tags ex_X ims (new_state 0) = (Inr m, snd G)"
    and e: "\<forall>h \<in> set (Status_Tags (Status ex_stream)).
                 (Items h = [] \<longrightarrow> m (Tag h) = None)
               \<and> (\<forall>item rest. Items h = item # rest \<longrightarrow>
                     m (Tag h) = (case digest_Parse ex_X (TagEvent_Image item) of
                                    Inl err \<Rightarrow> None | Inr g \<Rightarrow> Some g))"
    by blast
  from e have "m ''latest'' = Some (ex_digest CHR ''a'') \<and> m ''pending'' = None \<and> m ''broken'' = None"
    by (simp add: ex_stream_def ex_X_def ex_digest_Parse_def ex_digest_def
          list_all_replicate_iff)
  with t show ?thesis
    unfolding ims_def by blast
qed

section \<open>Creating a mapping\<close>

lemma call_ImageStreamMappings_Create_calls:
  "call_ImageStreamMappings_Create c ns ism st = (r, st') \<Longrightarrow>
     calls st' = calls st @ [Call_ImageStreamMappings_Create ns ism]
     \<and> cachedImageStream st' = cachedImageStream st"
  by (auto simp: call_ImageStreamMappings_Create_def split: prod.splits)

lemma call_ImageStreams_Create_calls:
  "call_ImageStreams_Create c ns stream st = (r, st') \<Longrightarrow>
     calls st' = calls st @ [Call_ImageStreams_Create ns stream]
     \<and> cachedImageStream st' = cachedImageStream st"
  by (auto simp: call_ImageStreams_Create_def split: prod.splits)

text \<open>The second attempt: one call, and its three outcomes.\<close>

lemma createMappingAgain_cases:
  assumes "call_ImageStreamMappings_Create (registryOSClient ims) (namespace ims) ism st = (rerr, st')"
  shows "\<exists>res. createMappingAgain X ims ism st = (res, st')
           \<and> (rerr = None \<longrightarrow> res = Return None)
           \<and> (\<forall>e. rerr = Some e \<and> quotautil_IsErrorQuotaExceeded X e \<longrightarrow>
                 (\<exists>r. res = Return (Some r) \<and> Code r = ErrImageStreamForbiddenCode))
           \<and> (\<forall>e. rerr = Some e \<and> \<not> quotautil_IsErrorQuotaExceeded X e \<longrightarrow>
                 (\<exists>r. res = Return (Some r) \<and> Code r = ErrImageStreamUnknownErrorCode))"
  using assms by (cases rerr) (auto simp: createMappingAgain_def)

lemma createMappingAgain_calls:
  assumes "createMappingAgain X ims ism st = (res, st')"
  shows "calls st' = calls st @ [Call_ImageStreamMappings_Create (namespace ims) ism]
         \<and> cachedImageStream st' = cachedImageStream st"
proof -
  obtain rerr s where c: "call_ImageStreamMappings_Create (registryOSClient ims) (namespace ims) ism st = (rerr, s)"
    by (cases "call_ImageStreamMappings_Create (registryOSClient ims) (namespace ims) ism st")
  from createMappingAgain_cases[OF c, of X] assms have "s = st'"
    by auto
  with call_ImageStreamMappings_Create_calls[OF c] show ?thesis
    by simp
qed

lemma provisionAndRetry_ok:
  assumes "call_ImageStreams_Create userClient (namespace ims) (provisionedStream ims) st = (perr, s2)"
      and "perr = None \<or> onError (kerrors_IsAlreadyExists X) perr \<or> onError (kerrors_IsConflict X) perr"
  shows "provisionAndRetry X ims userClient ism st
           = createMappingAgain X ims ism (cacheImageStream (provisionedStream ims) s2)"
  using assms by (auto simp: provisionAndRetry_def Let_def onError_def)

lemma provisionAndRetry_calls:
  assumes "provisionAndRetry X ims userClient ism st = (res, st')"
  shows "calls st' = calls st @ [Call_ImageStreams_Create (namespace ims) (provisionedStream ims)]
       \<or> calls st' = calls st @ [Call_ImageStreams_Create (namespace ims) (provisionedStream ims),
                                 Call_ImageStreamMappings_Create (namespace ims) ism]"
proof -
  obtain perr s2 where c: "call_ImageStreams_Create userClient (namespace ims) (provisionedStream ims) st = (perr, s2)"
    by (cases "call_ImageStreams_Create userClient (namespace ims) (provisionedStream ims) st")
  note c2 = call_ImageStreams_Create_calls[OF c]
  from assms c consider
      "st' = s2"
    | "createMappingAgain X ims ism (cacheImageStream (provisionedStream ims) s2) = (res, st')"
    by (auto simp: provisionAndRetry_def Let_def split: if_splits)
  then show ?thesis
  proof cases
    case 1
    with c2 show ?thesis by simp
  next
    case 2
    from createMappingAgain_calls[OF 2] c2 show ?thesis
      by (simp add: cacheImageStream_def)
  qed
qed


text \<open>What the error of the first attempt leads to when it is not a quota error.\<close>

lemma afterFirstError_cases:
  "(streamNotFound ims err \<and> \<not> namespaceNotFound X err \<longrightarrow>
      afterFirstError X ims userClient ism err st = provisionAndRetry X ims userClient ism st)
   \<and> (namespaceNotFound X err \<longrightarrow>
        (\<exists>r. afterFirstError X ims userClient ism err st = (Return (Some r), st)
            \<and> Code r = ErrImageStreamForbiddenCode))
   \<and> (notFoundWithoutDetails X err \<longrightarrow> afterFirstError X ims userClient ism err st = (Panic, st))
   \<and> (\<not> streamNotFound ims err \<and> \<not> namespaceNotFound X err \<and> \<not> notFoundWithoutDetails X err \<longrightarrow>
        (\<exists>r. afterFirstError X ims userClient ism err st = (Return (Some r), st)
            \<and> Code r = ErrImageStreamUnknownErrorCode))"
proof (cases err)
  case (OtherError msg)
  then show ?thesis
    by (simp add: afterFirstError_def streamNotFound_def namespaceNotFound_def
          notFoundWithoutDetails_def)
next
  case (StatusError status)
  show ?thesis
  proof (cases "Details status")
    case None
    with StatusError show ?thesis
      by (simp add: afterFirstError_def streamNotFound_def namespaceNotFound_def
            notFoundWithoutDetails_def)
  next
    case (Some d)
    with StatusError show ?thesis
      by (auto simp: afterFirstError_def streamNotFound_def namespaceNotFound_def
            notFoundWithoutDetails_def Let_def)
  qed
qed

lemma afterFirstError_calls:
  assumes "afterFirstError X ims userClient ism err st = (res, st')"
  shows "calls st' = calls st
       \<or> calls st' = calls st @ [Call_ImageStreams_Create (namespace ims) (provisionedStream ims)]
       \<or> calls st' = calls st @ [Call_ImageStreams_Create (namespace ims) (provisionedStream ims),
                                 Call_ImageStreamMappings_Create (namespace ims) ism]"
proof (cases "streamNotFound ims err \<and> \<not> namespaceNotFound X err")
  case True
  with afterFirstError_cases[of ims err X userClient ism st] assms
  have "provisionAndRetry X ims userClient ism st = (res, st')"
    by simp
  from provisionAndRetry_calls[OF this] show ?thesis
    by blast
next
  case False
  with afterFirstError_cases[of ims err X userClient ism st] assms
  have "st' = st"
    by (cases "namespaceNotFound X err"; cases "notFoundWithoutDetails X err") auto
  then show ?thesis
    by simp
qed

lemma first_call_outcome:
  assumes "call_ImageStreamMappings_Create (registryOSClient ims) (namespace ims)
             (mappingOf ims tag img) st = (r, s1)"
  shows "CreateImageStreamMapping X ims userClient tag (Some img) st =
           (case r of
              None \<Rightarrow> (Return None, s1)
            | Some err \<Rightarrow>
                if quotautil_IsErrorQuotaExceeded X err
                then (Return (Some (NewError ErrImageStreamForbiddenCode
                        (''CreateImageStreamMapping: quota exceeded during creation of ''
                           @ Reference ims @ '' ImageStreamMapping'')
                        (External err))), s1)
                else afterFirstError X ims userClient (mappingOf ims tag img) err s1)"
  using assms by (simp add: CreateImageStreamMapping_def split: option.splits)

lemma CreateImageStreamMapping_calls:
  assumes "CreateImageStreamMapping X ims userClient tag imagearg st = (res, st')"
  shows "newCalls st st' = []
       \<or> (\<exists>img. imagearg = Some img \<and>
           (newCalls st st' = [Call_ImageStreamMappings_Create (namespace ims) (mappingOf ims tag img)]
          \<or> newCalls st st' = [Call_ImageStreamMappings_Create (namespace ims) (mappingOf ims tag img),
                               Call_ImageStreams_Create (namespace ims) (provisionedStream ims)]
          \<or> newCalls st st' = [Call_ImageStreamMappings_Create (namespace ims) (mappingOf ims tag img),
                               Call_ImageStreams_Create (namespace ims) (provisionedStream ims),
                               Call_ImageStreamMappings_Create (namespace ims) (mappingOf ims tag img)]))"
proof (cases imagearg)
  case None
  with assms show ?thesis
    by (simp add: CreateImageStreamMapping_def newCalls_def)
next
  case (Some img)
  obtain r s1 where c: "call_ImageStreamMappings_Create (registryOSClient ims) (namespace ims)
             (mappingOf ims tag img) st = (r, s1)"
    by (cases "call_ImageStreamMappings_Create (registryOSClient ims) (namespace ims)
             (mappingOf ims tag img) st")
  note c1 = call_ImageStreamMappings_Create_calls[OF c]
  from assms Some first_call_outcome[OF c, of X userClient] consider
      "st' = s1"
    | err where "afterFirstError X ims userClient (mappingOf ims tag img) err s1 = (res, st')"
    by (auto split: option.splits if_splits)
  then show ?thesis
  proof cases
    case 1
    with c1 Some show ?thesis
      by (simp add: newCalls_def)
  next
    case 2
    from afterFirstError_calls[OF 2] c1 Some show ?thesis
      by (auto simp: newCalls_def)
  qed
qed

text \<open>
  Claim C5. When the first attempt to create the mapping fails with a quota-exceeded
  error, \<^verbatim>\<open>CreateImageStreamMapping\<close> returns an error with the code
  \<^verbatim>\<open>ErrImageStreamForbiddenCode\<close>, and the only call it has made is that first attempt:
  no call that creates the stream and no second call that creates the mapping.
\<close>

theorem CreateImageStreamMapping_quota_first_attempt:
  assumes "ImageStreamMappings_Create (registryOSClient ims) (namespace ims)
             (mappingOf ims tag img) (world st) = (Some err, w)"
      and "quotautil_IsErrorQuotaExceeded X err"
  shows "\<exists>e st'. CreateImageStreamMapping X ims userClient tag (Some img) st = (Return (Some e), st')
           \<and> Code e = ErrImageStreamForbiddenCode
           \<and> newCalls st st'
               = [Call_ImageStreamMappings_Create (namespace ims) (mappingOf ims tag img)]
           \<and> filter isStreamCreate (newCalls st st') = []
           \<and> length (filter isMappingCreate (newCalls st st')) = 1
           \<and> cachedImageStream st' = cachedImageStream st"
proof -
  let ?s1 = "st\<lparr>world := w, calls := calls st @
               [Call_ImageStreamMappings_Create (namespace ims) (mappingOf ims tag img)]\<rparr>"
  from assms(1) have "call_ImageStreamMappings_Create (registryOSClient ims) (namespace ims)
             (mappingOf ims tag img) st = (Some err, ?s1)"
    by (simp add: call_ImageStreamMappings_Create_def)
  from first_call_outcome[OF this, of X userClient] assms(2)
  have "CreateImageStreamMapping X ims userClient tag (Some img) st =
          (Return (Some (NewError ErrImageStreamForbiddenCode
                        (''CreateImageStreamMapping: quota exceeded during creation of ''
                           @ Reference ims @ '' ImageStreamMapping'')
                        (External err))), ?s1)"
    by simp
  then show ?thesis
    by (simp add: newCalls_def)
qed


theorem CreateImageStreamMapping_quota_first_attempt_witness:
  "\<exists>e st'. CreateImageStreamMapping ex_X (ex_ims ex_layers (Some ex_quota) None)
              (ex_client ex_layers None None) ''v2'' (Some (ex_image (ex_digest CHR ''a''))) (new_state 0)
              = (Return (Some e), st')
     \<and> Code e = ''ImageStream:Forbidden''
     \<and> filter isStreamCreate (newCalls (new_state 0) st') = []
     \<and> length (filter isMappingCreate (newCalls (new_state 0) st')) = 1"
proof -
  define ims where "ims = ex_ims ex_layers (Some ex_quota) None"
  have h1: "ImageStreamMappings_Create (registryOSClient ims) (namespace ims)
             (mappingOf ims ''v2'' (ex_image (ex_digest CHR ''a''))) (world (new_state 0))
             = (Some ex_quota, 1)"
    by (simp add: ims_def ex_ims_def ex_client_def new_state_def)
  have h2: "quotautil_IsErrorQuotaExceeded ex_X ex_quota"
    by (simp add: ex_X_def ex_IsErrorQuotaExceeded_def ex_quota_def ex_reasonOrCode_def
          ex_knownReasons_def ex_ToLower_def)
  from CreateImageStreamMapping_quota_first_attempt[OF h1 h2, of "ex_client ex_layers None None"] show ?thesis
    unfolding ims_def by (auto simp: code_defs)
qed

text \<open>
  Claim C6, as amended. After the first attempt \<^verbatim>\<open>CreateImageStreamMapping\<close> ends, in
  the state \<open>s1\<close> that the attempt left: with no error when the attempt succeeds; with
  the code Forbidden when it fails with a quota-exceeded error; with the code Forbidden
  when it fails with a not-found status error whose details name the kind
  \<open>namespaces\<close>; with the code Unknown on every other failure that does not say that
  the target stream was not found (a not-found status error without details apart). Only a
  failure saying that the target stream was not found goes on to auto-provisioning.
\<close>

theorem CreateImageStreamMapping_first_attempt:
  assumes "call_ImageStreamMappings_Create (registryOSClient ims) (namespace ims)
             (mappingOf ims tag img) st = (r, s1)"
  shows "(r = None \<longrightarrow>
            CreateImageStreamMapping X ims userClient tag (Some img) st = (Return None, s1))
       \<and> (\<forall>err. r = Some err \<and> quotautil_IsErrorQuotaExceeded X err \<longrightarrow>
            (\<exists>e. CreateImageStreamMapping X ims userClient tag (Some img) st = (Return (Some e), s1)
                \<and> Code e = ErrImageStreamForbiddenCode))
       \<and> (\<forall>err. r = Some err \<and> \<not> quotautil_IsErrorQuotaExceeded X err
                 \<and> namespaceNotFound X err \<longrightarrow>
            (\<exists>e. CreateImageStreamMapping X ims userClient tag (Some img) st = (Return (Some e), s1)
                \<and> Code e = ErrImageStreamForbiddenCode))
       \<and> (\<forall>err. r = Some err \<and> \<not> quotautil_IsErrorQuotaExceeded X err
                 \<and> \<not> streamNotFound ims err \<and> \<not> namespaceNotFound X err
                 \<and> \<not> notFoundWithoutDetails X err \<longrightarrow>
            (\<exists>e. CreateImageStreamMapping X ims userClient tag (Some img) st = (Return (Some e), s1)
                \<and> Code e = ErrImageStreamUnknownErrorCode))
       \<and> (\<forall>err. r = Some err \<and> \<not> quotautil_IsErrorQuotaExceeded X err
                 \<and> streamNotFound ims err \<and> \<not> namespaceNotFound X err \<longrightarrow>
            CreateImageStreamMapping X ims userClient tag (Some img) st
              = provisionAndRetry X ims userClient (mappingOf ims tag img) s1)"
proof -
  note first = first_call_outcome[OF assms, of X userClient]
  note cases = afterFirstError_cases[of ims _ X userClient "mappingOf ims tag img" s1]
  have 1: "r = None \<longrightarrow>
            CreateImageStreamMapping X ims userClient tag (Some img) st = (Return None, s1)"
    using first by simp
  have 2: "\<forall>err. r = Some err \<and> quotautil_IsErrorQuotaExceeded X err \<longrightarrow>
            (\<exists>e. CreateImageStreamMapping X ims userClient tag (Some img) st = (Return (Some e), s1)
                \<and> Code e = ErrImageStreamForbiddenCode)"
    using first by simp
  have 3: "\<forall>err. r = Some err \<and> \<not> quotautil_IsErrorQuotaExceeded X err
                 \<and> namespaceNotFound X err \<longrightarrow>
            (\<exists>e. CreateImageStreamMapping X ims userClient tag (Some img) st = (Return (Some e), s1)
                \<and> Code e = ErrImageStreamForbiddenCode)"
    using first cases by simp
  have 4: "\<forall>err. r = Some err \<and> \<not> quotautil_IsErrorQuotaExceeded X err
                 \<and> \<not> streamNotFound ims err \<and> \<not> namespaceNotFound X err
                 \<and> \<not> notFoundWithoutDetails X err \<longrightarrow>
            (\<exists>e. CreateImageStreamMapping X ims userClient tag (Some img) st = (Return (Some e), s1)
                \<and> Code e = ErrImageStreamUnknownErrorCode)"
    using first cases by simp
  have 5: "\<forall>err. r = Some err \<and> \<not> quotautil_IsErrorQuotaExceeded X err
                 \<and> streamNotFound ims err \<and> \<not> namespaceNotFound X err \<longrightarrow>
            CreateImageStreamMapping X ims userClient tag (Some img) st
              = provisionAndRetry X ims userClient (mappingOf ims tag img) s1"
    using first cases by simp
  from 1 2 3 4 5 show ?thesis
    by (intro conjI)
qed

theorem CreateImageStreamMapping_first_attempt_witness:
  "fst (CreateImageStreamMapping ex_X (ex_ims ex_layers None None)
          (ex_client ex_layers None None) ''v2'' (Some (ex_image (ex_digest CHR ''a''))) (new_state 0))
     = Return None
   \<and> (\<exists>e. fst (CreateImageStreamMapping ex_X (ex_ims ex_layers (Some ex_quota) None)
          (ex_client ex_layers None None) ''v2'' (Some (ex_image (ex_digest CHR ''a''))) (new_state 0))
        = Return (Some e) \<and> Code e = ''ImageStream:Forbidden'')
   \<and> (\<exists>e. fst (CreateImageStreamMapping ex_X
          (ex_ims ex_layers (Some (ex_notFound ''Namespaces'' ''ns'')) None)
          (ex_client ex_layers None None) ''v2'' (Some (ex_image (ex_digest CHR ''a''))) (new_state 0))
        = Return (Some e) \<and> Code e = ''ImageStream:Forbidden'')
   \<and> (\<exists>e. fst (CreateImageStreamMapping ex_X
          (ex_ims ex_layers (Some (OtherError ''connection refused'')) None)
          (ex_client ex_layers None None) ''v2'' (Some (ex_image (ex_digest CHR ''a''))) (new_state 0))
        = Return (Some e) \<and> Code e = ''ImageStream:Unknown'')
   \<and> CreateImageStreamMapping ex_X
          (ex_ims ex_layers (Some (ex_notFound ''imagestreammappings'' ''app'')) None)
          (ex_client ex_layers None None) ''v2'' (Some (ex_image (ex_digest CHR ''a''))) (new_state 0)
        = provisionAndRetry ex_X
            (ex_ims ex_layers (Some (ex_notFound ''imagestreammappings'' ''app'')) None)
            (ex_client ex_layers None None)
            (mappingOf (ex_ims ex_layers (Some (ex_notFound ''imagestreammappings'' ''app'')) None)
               ''v2'' (ex_image (ex_digest CHR ''a'')))
            (snd (call_ImageStreamMappings_Create (ex_client ex_layers None None) ''ns''
              (mappingOf (ex_ims ex_layers None None) ''v2'' (ex_image (ex_digest CHR ''a'')))
              (new_state 0)))"
proof -
  define uc where "uc = ex_client ex_layers None None"
  define img where "img = ex_image (ex_digest CHR ''a'')"
  have h: "call_ImageStreamMappings_Create (registryOSClient (ex_ims ex_layers first None))
             (namespace (ex_ims ex_layers first None))
             (mappingOf (ex_ims ex_layers first None) ''v2'' img) (new_state 0)
           = (first, snd (call_ImageStreamMappings_Create uc ''ns''
                (mappingOf (ex_ims ex_layers None None) ''v2'' img) (new_state 0)))" for first
    by (simp add: uc_def creator_defs ex_ims_def ex_client_def)
  note facts = ex_X_def ex_IsErrorQuotaExceeded_def ex_quota_def ex_notFound_def ex_reason_def
    ex_reasonOrCode_def ex_knownReasons_def
    ex_ToLower_def ex_ims_def namespaceNotFound_def streamNotFound_def notFoundWithoutDetails_def
    http_StatusNotFound_def code_defs
  from CreateImageStreamMapping_first_attempt[OF h[of None], of ex_X uc]
  have a: "fst (CreateImageStreamMapping ex_X (ex_ims ex_layers None None) uc ''v2'' (Some img)
             (new_state 0)) = Return None"
    by simp
  from CreateImageStreamMapping_first_attempt[OF h[of "Some ex_quota"], of ex_X uc]
  have b: "\<exists>e. fst (CreateImageStreamMapping ex_X (ex_ims ex_layers (Some ex_quota) None) uc ''v2''
             (Some img) (new_state 0)) = Return (Some e) \<and> Code e = ''ImageStream:Forbidden''"
    by (auto simp: facts)
  from CreateImageStreamMapping_first_attempt[OF h[of "Some (ex_notFound ''Namespaces'' ''ns'')"], of ex_X uc]
  have c: "\<exists>e. fst (CreateImageStreamMapping ex_X
             (ex_ims ex_layers (Some (ex_notFound ''Namespaces'' ''ns'')) None) uc ''v2''
             (Some img) (new_state 0)) = Return (Some e) \<and> Code e = ''ImageStream:Forbidden''"
    by (auto simp: facts)
  from CreateImageStreamMapping_first_attempt[OF h[of "Some (OtherError ''connection refused'')"], of ex_X uc]
  have d: "\<exists>e. fst (CreateImageStreamMapping ex_X
             (ex_ims ex_layers (Some (OtherError ''connection refused'')) None) uc ''v2''
             (Some img) (new_state 0)) = Return (Some e) \<and> Code e = ''ImageStream:Unknown''"
    by (auto simp: facts)
  from CreateImageStreamMapping_first_attempt[OF h[of "Some (ex_notFound ''imagestreammappings'' ''app'')"], of ex_X uc]
  have e: "CreateImageStreamMapping ex_X
          (ex_ims ex_layers (Some (ex_notFound ''imagestreammappings'' ''app'')) None)
          uc ''v2'' (Some img) (new_state 0)
        = provisionAndRetry ex_X
            (ex_ims ex_layers (Some (ex_notFound ''imagestreammappings'' ''app'')) None) uc
            (mappingOf (ex_ims ex_layers (Some (ex_notFound ''imagestreammappings'' ''app'')) None)
               ''v2'' img)
            (snd (call_ImageStreamMappings_Create uc ''ns''
              (mappingOf (ex_ims ex_layers None None) ''v2'' img) (new_state 0)))"
    by (simp add: facts)
  from a b c d e show ?thesis
    unfolding uc_def img_def by (intro conjI)
qed

text \<open>
  Claim C6 as stated fails: the error that the namespace was not found is no quota error
  and does not say that the target stream was not found, yet the code returned is
  Forbidden and not Unknown.
\<close>

theorem namespace_not_found_counterexample:
  "\<not> quotautil_IsErrorQuotaExceeded ex_X (ex_notFound ''namespaces'' ''ns'')
   \<and> \<not> streamNotFound (ex_ims ex_layers (Some (ex_notFound ''namespaces'' ''ns'')) None)
          (ex_notFound ''namespaces'' ''ns'')
   \<and> (\<exists>e st'. CreateImageStreamMapping ex_X
                 (ex_ims ex_layers (Some (ex_notFound ''namespaces'' ''ns'')) None)
                 (ex_client ex_layers None None) ''v2'' (Some (ex_image (ex_digest CHR ''a'')))
                 (new_state 0) = (Return (Some e), st')
          \<and> Code e = ErrImageStreamForbiddenCode
          \<and> Code e \<noteq> ErrImageStreamUnknownErrorCode)"
  by (simp add: CreateImageStreamMapping_def afterFirstError_def streamNotFound_def creator_defs
        code_defs ex_defs)

text \<open>
  Claim C7. No run of \<^verbatim>\<open>CreateImageStreamMapping\<close> makes more than one call that
  creates the stream or more than two calls that create the mapping. And in a run whose
  first attempt led to auto-provisioning, once the provisioning call has succeeded or has
  failed with AlreadyExists or Conflict, the cache holds the \<^verbatim>\<open>stream\<close> object that was
  sent, the mapping is created once more, and the run ends with the outcome of that
  retry: no error, Forbidden for a quota-exceeded error, Unknown for any other.
\<close>

theorem CreateImageStreamMapping_single_retry:
  assumes "CreateImageStreamMapping X ims userClient tag imagearg st = (res, st')"
  shows "length (filter isStreamCreate (newCalls st st')) \<le> 1
       \<and> length (filter isMappingCreate (newCalls st st')) \<le> 2
       \<and> (\<forall>img e1 s1 perr s2 rerr s3.
            imagearg = Some img
            \<and> call_ImageStreamMappings_Create (registryOSClient ims) (namespace ims)
                  (mappingOf ims tag img) st = (Some e1, s1)
            \<and> \<not> quotautil_IsErrorQuotaExceeded X e1
            \<and> streamNotFound ims e1 \<and> \<not> namespaceNotFound X e1
            \<and> call_ImageStreams_Create userClient (namespace ims) (provisionedStream ims) s1
                  = (perr, s2)
            \<and> (perr = None \<or> onError (kerrors_IsAlreadyExists X) perr
                  \<or> onError (kerrors_IsConflict X) perr)
            \<and> call_ImageStreamMappings_Create (registryOSClient ims) (namespace ims)
                  (mappingOf ims tag img) (cacheImageStream (provisionedStream ims) s2)
                  = (rerr, s3)
            \<longrightarrow>
              st' = s3
              \<and> cachedImageStream st' = Some (provisionedStream ims)
              \<and> newCalls st st' =
                  [Call_ImageStreamMappings_Create (namespace ims) (mappingOf ims tag img),
                   Call_ImageStreams_Create (namespace ims) (provisionedStream ims),
                   Call_ImageStreamMappings_Create (namespace ims) (mappingOf ims tag img)]
              \<and> (rerr = None \<longrightarrow> res = Return None)
              \<and> (\<forall>e. rerr = Some e \<and> quotautil_IsErrorQuotaExceeded X e \<longrightarrow>
                    (\<exists>r. res = Return (Some r) \<and> Code r = ErrImageStreamForbiddenCode))
              \<and> (\<forall>e. rerr = Some e \<and> \<not> quotautil_IsErrorQuotaExceeded X e \<longrightarrow>
                    (\<exists>r. res = Return (Some r) \<and> Code r = ErrImageStreamUnknownErrorCode)))"
proof -
  from CreateImageStreamMapping_calls[OF assms]
  have bound: "length (filter isStreamCreate (newCalls st st')) \<le> 1
       \<and> length (filter isMappingCreate (newCalls st st')) \<le> 2"
    by auto
  have retry: "st' = s3
              \<and> cachedImageStream st' = Some (provisionedStream ims)
              \<and> newCalls st st' =
                  [Call_ImageStreamMappings_Create (namespace ims) (mappingOf ims tag img),
                   Call_ImageStreams_Create (namespace ims) (provisionedStream ims),
                   Call_ImageStreamMappings_Create (namespace ims) (mappingOf ims tag img)]
              \<and> (rerr = None \<longrightarrow> res = Return None)
              \<and> (\<forall>e. rerr = Some e \<and> quotautil_IsErrorQuotaExceeded X e \<longrightarrow>
                    (\<exists>r. res = Return (Some r) \<and> Code r = ErrImageStreamForbiddenCode))
              \<and> (\<forall>e. rerr = Some e \<and> \<not> quotautil_IsErrorQuotaExceeded X e \<longrightarrow>
                    (\<exists>r. res = Return (Some r) \<and> Code r = ErrImageStreamUnknownErrorCode))"
    if img: "imagearg = Some img"
      and c1: "call_ImageStreamMappings_Create (registryOSClient ims) (namespace ims)
                  (mappingOf ims tag img) st = (Some e1, s1)"
      and e1: "\<not> quotautil_IsErrorQuotaExceeded X e1" "streamNotFound ims e1"
              "\<not> namespaceNotFound X e1"
      and c2: "call_ImageStreams_Create userClient (namespace ims) (provisionedStream ims) s1
                  = (perr, s2)"
      and ok: "perr = None \<or> onError (kerrors_IsAlreadyExists X) perr
                  \<or> onError (kerrors_IsConflict X) perr"
      and c3: "call_ImageStreamMappings_Create (registryOSClient ims) (namespace ims)
                  (mappingOf ims tag img) (cacheImageStream (provisionedStream ims) s2)
                  = (rerr, s3)"
    for img e1 s1 perr s2 rerr s3
  proof -
    from first_call_outcome[OF c1, of X userClient] e1
         afterFirstError_cases[of ims e1 X userClient "mappingOf ims tag img" s1]
         provisionAndRetry_ok[OF c2 ok, of "mappingOf ims tag img"]
    have "CreateImageStreamMapping X ims userClient tag (Some img) st
            = createMappingAgain X ims (mappingOf ims tag img)
                (cacheImageStream (provisionedStream ims) s2)"
      by simp
    with assms img
    have again: "createMappingAgain X ims (mappingOf ims tag img)
                (cacheImageStream (provisionedStream ims) s2) = (res, st')"
      by simp
    from createMappingAgain_cases[OF c3, of X] again
    have st': "st' = s3"
      and outcome: "(rerr = None \<longrightarrow> res = Return None)
              \<and> (\<forall>e. rerr = Some e \<and> quotautil_IsErrorQuotaExceeded X e \<longrightarrow>
                    (\<exists>r. res = Return (Some r) \<and> Code r = ErrImageStreamForbiddenCode))
              \<and> (\<forall>e. rerr = Some e \<and> \<not> quotautil_IsErrorQuotaExceeded X e \<longrightarrow>
                    (\<exists>r. res = Return (Some r) \<and> Code r = ErrImageStreamUnknownErrorCode))"
      by auto
    from call_ImageStreamMappings_Create_calls[OF c1] call_ImageStreams_Create_calls[OF c2]
         call_ImageStreamMappings_Create_calls[OF c3]
    have "calls s3 = calls st @
                  [Call_ImageStreamMappings_Create (namespace ims) (mappingOf ims tag img),
                   Call_ImageStreams_Create (namespace ims) (provisionedStream ims),
                   Call_ImageStreamMappings_Create (namespace ims) (mappingOf ims tag img)]"
      and "cachedImageStream s3 = Some (provisionedStream ims)"
      by (simp_all add: cacheImageStream_def)
    with st' outcome show ?thesis
      by (simp add: newCalls_def)
  qed
  from bound retry show ?thesis
    by blast
qed


theorem CreateImageStreamMapping_single_retry_witness:
  "\<exists>r st'. CreateImageStreamMapping ex_X
              (ex_ims ex_layers (Some (ex_notFound ''imagestreammappings'' ''app'')) (Some ex_quota))
              (ex_client ex_layers None None) ''v2'' (Some (ex_image (ex_digest CHR ''a''))) (new_state 0)
              = (Return (Some r), st')
     \<and> Code r = ''ImageStream:Forbidden''
     \<and> cachedImageStream st' = Some (emptyImageStream\<lparr>ImageStream_Name := ''app''\<rparr>)
     \<and> length (newCalls (new_state 0) st') = 3
     \<and> length (filter isStreamCreate (newCalls (new_state 0) st')) = 1
     \<and> length (filter isMappingCreate (newCalls (new_state 0) st')) = 2"
proof -
  define ims where
    "ims = ex_ims ex_layers (Some (ex_notFound ''imagestreammappings'' ''app'')) (Some ex_quota)"
  define uc where "uc = ex_client ex_layers None None"
  define img where "img = ex_image (ex_digest CHR ''a'')"
  define R where "R = CreateImageStreamMapping ex_X ims uc ''v2'' (Some img) (new_state 0)"
  define C1 where "C1 = call_ImageStreamMappings_Create (registryOSClient ims) (namespace ims)
                  (mappingOf ims ''v2'' img) (new_state 0)"
  define C2 where "C2 = call_ImageStreams_Create uc (namespace ims) (provisionedStream ims) (snd C1)"
  define C3 where "C3 = call_ImageStreamMappings_Create (registryOSClient ims) (namespace ims)
                  (mappingOf ims ''v2'' img) (cacheImageStream (provisionedStream ims) (snd C2))"
  note facts = ex_X_def ex_IsErrorQuotaExceeded_def ex_quota_def ex_notFound_def ex_reason_def
    ex_reasonOrCode_def ex_knownReasons_def
    ex_ToLower_def ex_ims_def ex_client_def namespaceNotFound_def streamNotFound_def
    http_StatusNotFound_def code_defs creator_defs cacheImageStream_def
  have run: "CreateImageStreamMapping ex_X ims uc ''v2'' (Some img) (new_state 0) = (fst R, snd R)"
    by (simp add: R_def)
  have c1: "call_ImageStreamMappings_Create (registryOSClient ims) (namespace ims)
                  (mappingOf ims ''v2'' img) (new_state 0)
              = (Some (ex_notFound ''imagestreammappings'' ''app''), snd C1)"
    by (simp add: C1_def ims_def facts)
  have e1: "\<not> quotautil_IsErrorQuotaExceeded ex_X (ex_notFound ''imagestreammappings'' ''app'')"
           "streamNotFound ims (ex_notFound ''imagestreammappings'' ''app'')"
           "\<not> namespaceNotFound ex_X (ex_notFound ''imagestreammappings'' ''app'')"
    by (simp_all add: ims_def facts)
  have c2: "call_ImageStreams_Create uc (namespace ims) (provisionedStream ims) (snd C1)
              = (None, snd C2)"
    by (simp add: C2_def C1_def uc_def ims_def facts)
  have c3: "call_ImageStreamMappings_Create (registryOSClient ims) (namespace ims)
                  (mappingOf ims ''v2'' img) (cacheImageStream (provisionedStream ims) (snd C2))
              = (Some ex_quota, snd C3)"
    by (simp add: C3_def C2_def C1_def uc_def ims_def facts)
  have q: "quotautil_IsErrorQuotaExceeded ex_X ex_quota"
    by (simp add: facts)
  from CreateImageStreamMapping_single_retry[OF run] c1 e1 c2 c3 q
  have "snd R = snd C3
      \<and> cachedImageStream (snd R) = Some (provisionedStream ims)
      \<and> newCalls (new_state 0) (snd R) =
                  [Call_ImageStreamMappings_Create (namespace ims) (mappingOf ims ''v2'' img),
                   Call_ImageStreams_Create (namespace ims) (provisionedStream ims),
                   Call_ImageStreamMappings_Create (namespace ims) (mappingOf ims ''v2'' img)]
      \<and> (\<exists>r. fst R = Return (Some r) \<and> Code r = ErrImageStreamForbiddenCode)"
    by blast
  then have "\<exists>r. R = (Return (Some r), snd R) \<and> Code r = ''ImageStream:Forbidden''
      \<and> cachedImageStream (snd R) = Some (emptyImageStream\<lparr>ImageStream_Name := ''app''\<rparr>)
      \<and> length (newCalls (new_state 0) (snd R)) = 3
      \<and> length (filter isStreamCreate (newCalls (new_state 0) (snd R))) = 1
      \<and> length (filter isMappingCreate (newCalls (new_state 0) (snd R))) = 2"
    by (cases R) (auto simp: code_defs provisionedStream_def ims_def ex_ims_def)
  then show ?thesis
    unfolding R_def ims_def uc_def img_def by blast
qed

end
